theory Spec2Isabelle
  imports Main
begin

section \<open>Python values and errors\<close>

text \<open>
  Strings are \<^typ>\<open>string\<close>: the UTF-8 bytes of the Python text. Every exception a
  handler can raise is a value of \<open>error\<close>; \<open>Abort status description\<close> is
  \<^verbatim>\<open>flask.abort(status, description=...)\<close>. \<open>Unsupported_format\<close> marks a
  \<^verbatim>\<open>%\<close> directive that the formatting model below does not cover.
\<close>

datatype mail_op = Op_init | Op_set_reply_to | Op_check_initialized | Op_set_cc
  | Op_set_headers | Op_send

datatype error =
    Abort nat string
  | Bad_json
  | ValueError
  | TypeError
  | AttributeError
  | KeyError string
  | IndexError
  | UnicodeDecodeError
  | Mail_api_error mail_op
  | Enqueue_error
  | Unsupported_format

datatype response = Message string

text \<open>Sequencing of a computation that may raise.\<close>

definition and_then :: "error + 'a \<Rightarrow> ('a \<Rightarrow> error + 'b) \<Rightarrow> error + 'b" where
  "and_then m f = (case m of Inl e \<Rightarrow> Inl e | Inr x \<Rightarrow> f x)"

subsection \<open>\<^verbatim>\<open>str.split\<close> at one character\<close>

fun split_char :: "char \<Rightarrow> string \<Rightarrow> string list" where
  "split_char c [] = [[]]"
| "split_char c (x # xs) =
     (if x = c then [] # split_char c xs
      else (x # hd (split_char c xs)) # tl (split_char c xs))"

subsection \<open>\<^verbatim>\<open>template % mapping\<close>\<close>

text \<open>
  Python's \<^verbatim>\<open>%\<close> operator on a string and a dict of strings, for the directives
  \<^verbatim>\<open>%(key)s\<close> and \<^verbatim>\<open>%%\<close>. The key runs to the matching closing parenthesis
  (nested parentheses are counted); it is looked up as soon as it is read, so a missing
  key raises KeyError. A \<^verbatim>\<open>%\<close> at the end of the template, or a key that is not
  closed, raises ValueError. Text outside directives is copied. Flags, widths and the
  other conversion types are not modelled: they give \<open>Unsupported_format\<close>.
\<close>

fun take_key :: "nat \<Rightarrow> string \<Rightarrow> (string \<times> string) option" where
  "take_key depth [] = None"
| "take_key depth (c # cs) =
     (if c = CHR '')'' then
        (case depth of
           0 \<Rightarrow> Some ([], cs)
         | Suc d \<Rightarrow> map_option (\<lambda>(k, r). (c # k, r)) (take_key d cs))
      else if c = CHR ''('' then map_option (\<lambda>(k, r). (c # k, r)) (take_key (Suc depth) cs)
      else map_option (\<lambda>(k, r). (c # k, r)) (take_key depth cs))"

lemma take_key_shorter: "take_key depth s = Some (k, r) \<Longrightarrow> length r < length s"
  by (induction s arbitrary: depth k r) (fastforce split: if_splits nat.splits)+

function py_format :: "string \<Rightarrow> (string \<rightharpoonup> string) \<Rightarrow> error + string" where
  "py_format [] d = Inr []"
| "py_format (c # cs) d =
     (if c \<noteq> CHR ''%'' then and_then (py_format cs d) (\<lambda>out. Inr (c # out))
      else (case cs of
              [] \<Rightarrow> Inl ValueError
            | x # r \<Rightarrow>
                if x = CHR ''%'' then and_then (py_format r d) (\<lambda>out. Inr (CHR ''%'' # out))
                else if x = CHR ''('' then
                  (case take_key 0 r of
                     None \<Rightarrow> Inl ValueError
                   | Some (k, r') \<Rightarrow>
                       (case d k of
                          None \<Rightarrow> Inl (KeyError k)
                        | Some v \<Rightarrow>
                            (case r' of
                               [] \<Rightarrow> Inl ValueError
                             | y # r'' \<Rightarrow>
                                 if y = CHR ''s''
                                 then and_then (py_format r'' d) (\<lambda>out. Inr (v @ out))
                                 else Inl Unsupported_format)))
                else Inl Unsupported_format))"
  by pat_completeness auto
termination
  by (relation "measure (\<lambda>(s, d). length s)") (auto dest: take_key_shorter)

subsection \<open>\<^verbatim>\<open>repr\<close> and \<^verbatim>\<open>str\<close>\<close>

text \<open>
  \<^verbatim>\<open>repr\<close> of a Python string: double quotes are chosen when the text has a single quote
  and no double quote; the quote character and the backslash are escaped, tab, newline
  and carriage return become \<^verbatim>\<open>\t \n \r\<close>, other control characters \<^verbatim>\<open>\xhh\<close>.
  Bytes from 0x80 on are copied (they belong to printable non-ASCII text).
\<close>

definition hex_digit :: "nat \<Rightarrow> char" where
  "hex_digit n = ''0123456789abcdef'' ! (n mod 16)"

definition repr_char :: "char \<Rightarrow> char \<Rightarrow> string" where
  "repr_char q c =
     (if c = q \<or> c = CHR 0x5C then [CHR 0x5C, c]
      else if c = CHR 0x09 then [CHR 0x5C, CHR ''t'']
      else if c = CHR 0x0A then [CHR 0x5C, CHR ''n'']
      else if c = CHR 0x0D then [CHR 0x5C, CHR ''r'']
      else if (of_char c :: nat) < 32 \<or> (of_char c :: nat) = 127
        then [CHR 0x5C, CHR ''x'', hex_digit (of_char c div 16), hex_digit (of_char c)]
      else [c])"

definition py_repr :: "string \<Rightarrow> string" where
  "py_repr s =
     (let q = (if CHR 0x27 \<in> set s \<and> CHR 0x22 \<notin> set s then CHR 0x22 else CHR 0x27)
      in q # concat (map (repr_char q) s) @ [q])"

fun join :: "string \<Rightarrow> string list \<Rightarrow> string" where
  "join sep [] = []"
| "join sep [x] = x"
| "join sep (x # y # ys) = x @ sep @ join sep (y # ys)"

section \<open>Request parameters and settings\<close>

text \<open>
  A parameter of a mail task, as the JSON body gives it: absent or null, a string, or a
  list of strings. Other JSON types (numbers, booleans, objects, nested lists) are outside
  this model. \<open>truthy\<close> is Python's truth value; \<open>py_str\<close> is \<^verbatim>\<open>str(value)\<close>, what
  \<^verbatim>\<open>%s\<close> prints.
\<close>

datatype param = Null | Str string | Strs "string list"

fun truthy :: "param \<Rightarrow> bool" where
  "truthy Null = False"
| "truthy (Str s) = (s \<noteq> [])"
| "truthy (Strs xs) = (xs \<noteq> [])"

fun py_str :: "param \<Rightarrow> string" where
  "py_str Null = ''None''"
| "py_str (Str s) = s"
| "py_str (Strs xs) = ''['' @ join '', '' (map py_repr xs) @ '']''"

text \<open>\<^verbatim>\<open>if isinstance(x, str): x = [x]\<close>\<close>

fun listify :: "param \<Rightarrow> param" where
  "listify (Str s) = Strs [s]"
| "listify p = p"

text \<open>The elements a \<^verbatim>\<open>for\<close> loop over the value visits; None is not iterable.\<close>

fun iterate :: "param \<Rightarrow> error + string list" where
  "iterate (Strs xs) = Inr xs"
| "iterate (Str s) = Inr (map (\<lambda>c. [c]) s)"
| "iterate Null = Inl TypeError"

text \<open>A loop that builds a list and stops at the first exception.\<close>

fun map_err :: "('a \<Rightarrow> error + 'b) \<Rightarrow> 'a list \<Rightarrow> error + 'b list" where
  "map_err f [] = Inr []"
| "map_err f (x # xs) =
     and_then (f x) (\<lambda>y. and_then (map_err f xs) (\<lambda>ys. Inr (y # ys)))"

text \<open>
  The settings module is not part of the sources at hand; its values are parameters.
  \<open>SEND_ALL_EMAIL_TO\<close> and \<open>CC_ALL_EMAIL_TO\<close> are None or a template string.
\<close>

record settings =
  UNIT_TEST_MODE :: bool
  DEV_MODE :: bool
  APP_ID :: string
  SEND_EMAIL :: bool
  SEND_ALL_EMAIL_TO :: "string option"
  CC_ALL_EMAIL_TO :: "string option"
  REVIEW_COMMENT_MAILING_LIST :: param
  BOUNCE_ESCALATION_ADDR :: param
  INBOUND_EMAIL_ADDR :: string

definition MAX_BODY_SIZE :: int where
  "MAX_BODY_SIZE = 20 * 1024 * 1024"

text \<open>
  The request of a mail task: whether the header \<^verbatim>\<open>X-AppEngine-QueueName\<close> is present,
  and the body as \<^verbatim>\<open>get_json(force=True)\<close> parses it (a dict with distinct keys), None
  when it is not JSON, which flask answers with a bad-request error.
\<close>

record mail_request =
  queue_header :: bool
  json_body :: "(string \<times> param) list option"

definition require_task_header :: "settings \<Rightarrow> mail_request \<Rightarrow> error + unit" where
  "require_task_header cfg request =
     (if UNIT_TEST_MODE cfg \<or> DEV_MODE cfg then Inr ()
      else if \<not> queue_header request
        then Inl (Abort 403 ''Lacking X-AppEngine-QueueName header'')
      else Inr ())"

text \<open>\<^verbatim>\<open>json_body.get(name)\<close>: None when the key is absent.\<close>

definition dict_get :: "(string \<times> param) list \<Rightarrow> string \<Rightarrow> param" where
  "dict_get d name = (case map_of d name of None \<Rightarrow> Null | Some v \<Rightarrow> v)"

definition get_param :: "mail_request \<Rightarrow> string \<Rightarrow> bool \<Rightarrow> error + param" where
  "get_param request name required =
     (case json_body request of
        None \<Rightarrow> Inl Bad_json
      | Some d \<Rightarrow>
          (let val = dict_get d name
           in if required \<and> \<not> truthy val
              then Inl (Abort 400 (''Missing parameter '' @ py_repr name))
              else Inr val))"

section \<open>Staging redirection\<close>

text \<open>\<^verbatim>\<open>user, domain = addr.split('@')\<close>: anything but two pieces raises ValueError.\<close>

definition split_addr :: "string \<Rightarrow> error + string \<times> string" where
  "split_addr addr =
     (case split_char CHR ''@'' addr of
        [user, domain] \<Rightarrow> Inr (user, domain)
      | _ \<Rightarrow> Inl ValueError)"

definition user_domain :: "string \<Rightarrow> string \<Rightarrow> (string \<rightharpoonup> string)" where
  "user_domain user domain = map_of [(''user'', user), (''domain'', domain)]"

definition format_staging_email :: "settings \<Rightarrow> string \<Rightarrow> error + string" where
  "format_staging_email cfg addr =
     (case SEND_ALL_EMAIL_TO cfg of
        None \<Rightarrow> Inr []
      | Some template \<Rightarrow>
          if template = [] then Inr []
          else and_then (split_addr addr)
                 (\<lambda>(to_user, to_domain). py_format template (user_domain to_user to_domain)))"

text \<open>The body of the loop over \<^verbatim>\<open>cc\<close>; \<^verbatim>\<open>None % dict\<close> raises TypeError.\<close>

definition format_cc :: "settings \<Rightarrow> string \<Rightarrow> error + string" where
  "format_cc cfg cc_addr =
     and_then (split_addr cc_addr)
       (\<lambda>(cc_user, cc_domain).
          case CC_ALL_EMAIL_TO cfg of
            None \<Rightarrow> Inl TypeError
          | Some template \<Rightarrow> py_format template (user_domain cc_user cc_domain))"

section \<open>Mail messages and the outside state\<close>

text \<open>
  \<^verbatim>\<open>mail.EmailMessage\<close> belongs to the App Engine library. The model keeps the values the
  handler assigns to its attributes (\<open>Null\<close>: never assigned). Each library call may
  raise (an invalid address, a missing field, a failing transport): \<open>mail_ok op m\<close> says
  whether the call \<open>op\<close> returns normally on the message \<open>m\<close>, and is a parameter.
\<close>

record email_message =
  msg_sender :: string
  msg_to :: param
  msg_subject :: param
  msg_html :: param
  msg_body :: param
  msg_reply_to :: param
  msg_cc :: param
  msg_headers :: "(string \<times> param) list"

definition mail_call ::
  "(mail_op \<Rightarrow> email_message \<Rightarrow> bool) \<Rightarrow> mail_op \<Rightarrow> email_message \<Rightarrow> error + email_message" where
  "mail_call mail_ok op m = (if mail_ok op m then Inr m else Inl (Mail_api_error op))"

text \<open>
  A JSON value as the star API reads it. Floating-point numbers are left out.
\<close>

datatype json = JNull | JBool bool | JInt int | JStr string | JList "json list"
  | JObj "(string \<times> json) list"

text \<open>
  The state outside the process: the persisted user preferences, the messages handed to
  the mail transport, the tasks put on the queue, the raw inbound messages given to the
  parser, and the calls \<^verbatim>\<open>set_star(email, feature_id, starred)\<close> made to the star store.
  Logging is left out.
\<close>

record user_pref =
  email :: "string option"
  bounced :: bool

record task_dict =
  to_addr :: string
  from_addr :: string
  subject :: string
  in_reply_to :: string
  body :: string

record world =
  prefs :: "string option \<rightharpoonup> user_pref"
  sent :: "email_message list"
  queue :: "(string \<times> task_dict) list"
  parsed :: "string list"
  star_calls :: "(string \<times> int \<times> json) list"

definition empty_world :: world where
  "empty_world = \<lparr>prefs = Map.empty, sent = [], queue = [], parsed = [], star_calls = []\<rparr>"

section \<open>Outbound mail\<close>

text \<open>
  \<^verbatim>\<open>handle_outbound_mail_task\<close> in four parts. Lines 78 to 87: the recipients after
  staging redirection, from the \<^verbatim>\<open>to\<close> and \<^verbatim>\<open>cc\<close> already in list form.
\<close>

definition stage_recipients :: "settings \<Rightarrow> param \<Rightarrow> param \<Rightarrow> error + param \<times> param" where
  "stage_recipients cfg to1 cc1 =
     (if SEND_ALL_EMAIL_TO cfg \<noteq> None \<and> SEND_ALL_EMAIL_TO cfg \<noteq> Some []
         \<and> to1 \<noteq> REVIEW_COMMENT_MAILING_LIST cfg
      then
        and_then (iterate to1) (\<lambda>to_addrs.
        and_then (map_err (format_staging_email cfg) to_addrs) (\<lambda>new_to.
        if truthy cc1 then
          and_then (iterate cc1) (\<lambda>cc_addrs.
          and_then (map_err (format_cc cfg) cc_addrs) (\<lambda>new_cc.
          Inr (Strs new_to, Strs new_cc)))
        else Inr (Strs new_to, cc1)))
      else Inr (to1, cc1))"

text \<open>Lines 89 to 92: the sender.\<close>

definition sender_for :: "settings \<Rightarrow> param \<Rightarrow> string" where
  "sender_for cfg from_user =
     (if truthy from_user
      then py_str from_user @ '' via Chromestatus <admin+'' @ py_str from_user @ ''@''
             @ APP_ID cfg @ ''.appspotmail.com>''
      else ''Chromestatus <admin@'' @ APP_ID cfg @ ''.appspotmail.com>'')"

text \<open>Lines 94 to 106: the message is built, one library call after the other.\<close>

definition build_message ::
  "(mail_op \<Rightarrow> email_message \<Rightarrow> bool) \<Rightarrow> string \<Rightarrow> param \<Rightarrow> param \<Rightarrow> param \<Rightarrow> param
     \<Rightarrow> param \<Rightarrow> param \<Rightarrow> error + email_message" where
  "build_message mail_ok sender to2 subj email_html reply_to cc2 references =
     and_then (mail_call mail_ok Op_init
        \<lparr>msg_sender = sender, msg_to = to2, msg_subject = subj, msg_html = email_html,
         msg_body = Null, msg_reply_to = Null, msg_cc = Null, msg_headers = []\<rparr>) (\<lambda>m0.
     and_then (if truthy reply_to
               then mail_call mail_ok Op_set_reply_to (m0\<lparr>msg_reply_to := reply_to\<rparr>)
               else Inr m0) (\<lambda>m1.
     and_then (mail_call mail_ok Op_check_initialized m1) (\<lambda>m2.
     and_then (if truthy cc2 then mail_call mail_ok Op_set_cc (m2\<lparr>msg_cc := cc2\<rparr>)
               else Inr m2) (\<lambda>m3.
     if truthy references
     then mail_call mail_ok Op_set_headers
            (m3\<lparr>msg_headers := [(''References'', references), (''In-Reply-To'', references)]\<rparr>)
     else Inr m3))))"

text \<open>
  Lines 61 to 106 as a whole: the message as it stands before the handler logs and
  sends it.
\<close>

definition outbound_message ::
  "(mail_op \<Rightarrow> email_message \<Rightarrow> bool) \<Rightarrow> settings \<Rightarrow> mail_request \<Rightarrow> error + email_message" where
  "outbound_message mail_ok cfg request =
     and_then (require_task_header cfg request) (\<lambda>_.
     and_then (get_param request ''to'' True) (\<lambda>to0.
     and_then (get_param request ''cc'' False) (\<lambda>cc0.
     and_then (get_param request ''from_user'' False) (\<lambda>from_user.
     and_then (get_param request ''subject'' True) (\<lambda>subj.
     and_then (get_param request ''html'' True) (\<lambda>email_html.
     and_then (get_param request ''references'' False) (\<lambda>references.
     and_then (get_param request ''reply_to'' False) (\<lambda>reply_to.
     and_then (stage_recipients cfg (listify to0) (listify cc0)) (\<lambda>(to2, cc2).
     build_message mail_ok (sender_for cfg from_user) to2 subj email_html reply_to cc2
       references)))))))))"

text \<open>Lines 119 to 125: the message is sent unless sending is switched off.\<close>

definition handle_outbound_mail_task ::
  "(mail_op \<Rightarrow> email_message \<Rightarrow> bool) \<Rightarrow> settings \<Rightarrow> mail_request \<Rightarrow> world
     \<Rightarrow> (error + response) \<times> world" where
  "handle_outbound_mail_task mail_ok cfg request w =
     (case outbound_message mail_ok cfg request of
        Inl e \<Rightarrow> (Inl e, w)
      | Inr message \<Rightarrow>
          if SEND_EMAIL cfg then
            (if mail_ok Op_send message
             then (Inr (Message ''Done''), w\<lparr>sent := sent w @ [message]\<rparr>)
             else (Inl (Mail_api_error Op_send), w))
          else (Inr (Message ''Done''), w))"

section \<open>Bounce notifications\<close>

text \<open>
  A bounce notification carries \<^verbatim>\<open>original\<close>, a dict of strings. \<open>repr_opt\<close> is
  \<^verbatim>\<open>'%r' % value\<close> for a value that is a string or None.
\<close>

record bounce_notification =
  original :: "(string \<times> string) list"

definition repr_opt :: "string option \<Rightarrow> string" where
  "repr_opt v = (case v of None \<Rightarrow> ''None'' | Some s \<Rightarrow> py_repr s)"

text \<open>
  Lines 155 to 160: \<^verbatim>\<open>str.format(**original)\<close> with the fields \<^verbatim>\<open>from\<close>, \<^verbatim>\<open>to\<close>,
  \<^verbatim>\<open>subject\<close> and \<^verbatim>\<open>text\<close>, looked up in this order; a missing key raises KeyError.
\<close>

definition format_bounce_body :: "(string \<times> string) list \<Rightarrow> error + string" where
  "format_bounce_body orig =
     (case map_of orig ''from'' of None \<Rightarrow> Inl (KeyError ''from'') | Some v_from \<Rightarrow>
     (case map_of orig ''to'' of None \<Rightarrow> Inl (KeyError ''to'') | Some v_to \<Rightarrow>
     (case map_of orig ''subject'' of None \<Rightarrow> Inl (KeyError ''subject'') | Some v_subject \<Rightarrow>
     (case map_of orig ''text'' of None \<Rightarrow> Inl (KeyError ''text'') | Some v_text \<Rightarrow>
        Inr (''The following message bounced.'' @ [CHR 0x0A]
             @ ''================='' @ [CHR 0x0A]
             @ ''From: '' @ v_from @ [CHR 0x0A]
             @ ''To: '' @ v_to @ [CHR 0x0A]
             @ ''Subject: '' @ v_subject @ [CHR 0x0A, CHR 0x0A]
             @ v_text @ [CHR 0x0A])))))"

text \<open>
  Modelled from the spec: \<^verbatim>\<open>UserPref.put\<close> (the module \<^verbatim>\<open>internals.user_models\<close> is not
  among the sources). The specification keys a preference record by its email, so
  \<open>put\<close> stores the record under its email.
\<close>

definition put :: "user_pref \<Rightarrow> world \<Rightarrow> world" where
  "put user_pref w = w\<lparr>prefs := (prefs w)(email user_pref \<mapsto> user_pref)\<rparr>"

text \<open>
  Modelled from the spec: \<^verbatim>\<open>UserPref.get_prefs_for_emails\<close>, which looks a record up
  for each address or makes a new one. \<open>receive\<close> below takes the lookup as a
  parameter; this is the instance the specification describes.
\<close>

definition lookup_or_create :: "(string option \<rightharpoonup> user_pref) \<Rightarrow> string option list \<Rightarrow> user_pref list" where
  "lookup_or_create store emails =
     map (\<lambda>e. case store e of Some user_pref \<Rightarrow> user_pref
                | None \<Rightarrow> \<lparr>email = e, bounced = False\<rparr>) emails"

definition receive ::
  "(mail_op \<Rightarrow> email_message \<Rightarrow> bool)
     \<Rightarrow> ((string option \<rightharpoonup> user_pref) \<Rightarrow> string option list \<Rightarrow> user_pref list)
     \<Rightarrow> settings \<Rightarrow> bounce_notification \<Rightarrow> world \<Rightarrow> (error + unit) \<times> world" where
  "receive mail_ok get_prefs_for_emails cfg bounce_message w =
     (let email_addr = map_of (original bounce_message) ''to'';
          subj = ''Mail to '' @ repr_opt email_addr @ '' bounced'';
          pref_list = get_prefs_for_emails (prefs w) [email_addr]
      in case pref_list of
           [] \<Rightarrow> (Inl IndexError, w)
         | user_pref # _ \<Rightarrow>
             (let w1 = put (user_pref\<lparr>bounced := True\<rparr>) w in
              case and_then (format_bounce_body (original bounce_message)) (\<lambda>text.
                   and_then (mail_call mail_ok Op_init
                      \<lparr>msg_sender = ''Chromestatus <admin@'' @ APP_ID cfg @ ''.appspotmail.com>'',
                       msg_to = BOUNCE_ESCALATION_ADDR cfg, msg_subject = Str subj,
                       msg_html = Null, msg_body = Str text, msg_reply_to = Null,
                       msg_cc = Null, msg_headers = []\<rparr>) (\<lambda>m.
                   mail_call mail_ok Op_check_initialized m)) of
                Inl e \<Rightarrow> (Inl e, w1)
              | Inr message \<Rightarrow>
                  if SEND_EMAIL cfg then
                    (if mail_ok Op_send message
                     then (Inr (), w1\<lparr>sent := sent w1 @ [message]\<rparr>)
                     else (Inl (Mail_api_error Op_send), w1))
                  else (Inr (), w1)))"

definition handle_bounce ::
  "(mail_op \<Rightarrow> email_message \<Rightarrow> bool)
     \<Rightarrow> ((string option \<rightharpoonup> user_pref) \<Rightarrow> string option list \<Rightarrow> user_pref list)
     \<Rightarrow> settings \<Rightarrow> bounce_notification \<Rightarrow> world \<Rightarrow> (error + response) \<times> world" where
  "handle_bounce mail_ok get_prefs_for_emails cfg bounce_message w =
     (case receive mail_ok get_prefs_for_emails cfg bounce_message w of
        (Inl e, w') \<Rightarrow> (Inl e, w')
      | (Inr _, w') \<Rightarrow> (Inr (Message ''Done''), w'))"

section \<open>Inbound mail\<close>

text \<open>
  A parsed message (\<^verbatim>\<open>email.message.Message\<close>): its headers in order, what
  \<^verbatim>\<open>get_content_type()\<close> returns, what \<^verbatim>\<open>get_content_charset()\<close> returns (None
  when the part declares no charset), what \<^verbatim>\<open>get_payload(decode=True)\<close> returns (bytes,
  a string, or None as for a multipart message), and its sub-parts.
\<close>

datatype payload = PBytes string | PStr string | PNone

datatype py_message =
  Mime (headers: "(string \<times> string) list") (content_type: string) (charset: "string option")
    (decoded_payload: payload) (subparts: "py_message list")

text \<open>
  The functions of the standard library and of App Engine that the inbound handler
  calls are parameters: the message parser, \<^verbatim>\<open>email.utils.getaddresses\<close>,
  \<^verbatim>\<open>urllib.parse.unquote\<close>, \<^verbatim>\<open>str.lower\<close>, \<^verbatim>\<open>bytes.decode(encoding)\<close> (the
  encoding first; None: the bytes cannot be decoded), and whether
  \<^verbatim>\<open>cloud_tasks_helpers.enqueue_task\<close> returns normally.
\<close>

record mail_lib =
  parse_message :: "string \<Rightarrow> py_message"
  getaddresses :: "string list \<Rightarrow> (string \<times> string) list"
  unquote :: "string \<Rightarrow> string"
  str_lower :: "string \<Rightarrow> string"
  decode :: "string \<Rightarrow> string \<Rightarrow> string option"
  enqueue_ok :: "string \<Rightarrow> task_dict \<Rightarrow> bool"

record inbound_request =
  content_length :: "int option"
  data :: string

text \<open>
  \<^verbatim>\<open>msg.get(name, failobj)\<close> and \<^verbatim>\<open>msg.get_all(name, failobj)\<close>: a header matches
  when its name and the given name are equal after \<^verbatim>\<open>lower()\<close>; \<open>get\<close> gives the
  first match.
\<close>

definition msg_get :: "mail_lib \<Rightarrow> py_message \<Rightarrow> string \<Rightarrow> string \<Rightarrow> string" where
  "msg_get lib msg name failobj =
     (case find (\<lambda>(k, v). str_lower lib k = str_lower lib name) (headers msg) of
        Some (k, v) \<Rightarrow> v
      | None \<Rightarrow> failobj)"

definition msg_get_all :: "mail_lib \<Rightarrow> py_message \<Rightarrow> string \<Rightarrow> string list \<Rightarrow> string list" where
  "msg_get_all lib msg name failobj =
     (let vals = map snd (filter (\<lambda>(k, v). str_lower lib k = str_lower lib name) (headers msg))
      in if vals = [] then failobj else vals)"

text \<open>\<^verbatim>\<open>msg.walk()\<close>: the message itself, then the walk of each sub-part in order.\<close>

fun walk :: "py_message \<Rightarrow> py_message list" where
  "walk (Mime h c cs p subs) = Mime h c cs p subs # concat (map walk subs)"

definition extract_addrs :: "mail_lib \<Rightarrow> string list \<Rightarrow> string list" where
  "extract_addrs lib header_value = map snd (getaddresses lib header_value)"

text \<open>
  Lines 221 to 223: the text of a part. A payload that is not a string is decoded with
  \<^verbatim>\<open>decode('utf-8')\<close>; \<^verbatim>\<open>None.decode\<close> raises AttributeError.
\<close>

definition part_text :: "mail_lib \<Rightarrow> py_message \<Rightarrow> error + string" where
  "part_text lib part =
     (case decoded_payload part of
        PStr s \<Rightarrow> Inr s
      | PBytes b \<Rightarrow>
          (case decode lib ''utf-8'' b of None \<Rightarrow> Inl UnicodeDecodeError | Some s \<Rightarrow> Inr s)
      | PNone \<Rightarrow> Inl AttributeError)"

text \<open>Lines 217 to 224: the loop over the parts, left at the first plain-text part.\<close>

fun plain_text_body :: "mail_lib \<Rightarrow> py_message list \<Rightarrow> error + string" where
  "plain_text_body lib [] = Inr []"
| "plain_text_body lib (part # parts) =
     (if content_type part = ''text/plain'' then part_text lib part
      else plain_text_body lib parts)"

definition enqueue_task :: "mail_lib \<Rightarrow> string \<Rightarrow> task_dict \<Rightarrow> world \<Rightarrow> (error + unit) \<times> world" where
  "enqueue_task lib path task w =
     (if enqueue_ok lib path task then (Inr (), w\<lparr>queue := queue w @ [(path, task)]\<rparr>)
      else (Inl Enqueue_error, w))"

text \<open>Lines 215 to 239: the task is made and put on the queue.\<close>

definition enqueue_reply ::
  "mail_lib \<Rightarrow> string \<Rightarrow> py_message \<Rightarrow> string \<Rightarrow> world \<Rightarrow> (error + response) \<times> world" where
  "enqueue_reply lib addr msg sender_addr w =
     (let reply_id = msg_get lib msg ''in-reply-to'' [] in
      case plain_text_body lib (walk msg) of
        Inl e \<Rightarrow> (Inl e, w)
      | Inr text \<Rightarrow>
          (let task = \<lparr>to_addr = unquote lib addr, from_addr = sender_addr,
                       subject = msg_get lib msg ''subject'' [], in_reply_to = reply_id,
                       body = text\<rparr>
           in case enqueue_task lib ''/tasks/detect-intent'' task w of
                (Inl e, w') \<Rightarrow> (Inl e, w')
              | (Inr _, w') \<Rightarrow> (Inr (Message ''Done''), w')))"

text \<open>
  \<open>handle_incoming_mail\<close>; \<open>addr\<close> is None when the route gives no address.
  Comparing a missing content length with a number raises TypeError.
\<close>

definition handle_incoming_mail ::
  "mail_lib \<Rightarrow> settings \<Rightarrow> string option \<Rightarrow> inbound_request \<Rightarrow> world
     \<Rightarrow> (error + response) \<times> world" where
  "handle_incoming_mail lib cfg addr request w =
     (case addr of
        None \<Rightarrow> (Inr (Message ''Wrong address''), w)
      | Some a \<Rightarrow>
          if a \<noteq> INBOUND_EMAIL_ADDR cfg then (Inr (Message ''Wrong address''), w)
          else
            (case content_length request of
               None \<Rightarrow> (Inl TypeError, w)
             | Some n \<Rightarrow>
                 if n > MAX_BODY_SIZE then (Inr (Message ''Too big''), w)
                 else
                   (let msg = parse_message lib (data request);
                        w1 = w\<lparr>parsed := parsed w @ [data request]\<rparr>;
                        precedence = msg_get lib msg ''precedence'' []
                    in if str_lower lib precedence \<in> set [''bulk'', ''junk'']
                       then (Inr (Message ''Wrong precedence''), w1)
                       else
                         (let original_from =
                                extract_addrs lib (msg_get_all lib msg ''x-original-from'' []);
                              from_addrs = (if original_from \<noteq> [] then original_from
                                            else extract_addrs lib (msg_get_all lib msg ''from'' []))
                          in case from_addrs of
                               [] \<Rightarrow> (Inr (Message ''Missing From''), w1)
                             | sender_addr # _ \<Rightarrow> enqueue_reply lib a msg sender_addr w1))))"

section \<open>The star API\<close>

text \<open>
  The request of \<^verbatim>\<open>StarsAPI.do_post\<close>: the parsed JSON body (None when it is not JSON)
  and the email of the signed-in user, None for an anonymous request.
  \<^verbatim>\<open>models.Feature.get_feature\<close> is not among the sources: \<open>feature_exists\<close> says
  whether it finds a feature, and is a parameter. \<^verbatim>\<open>notifier.FeatureStar.set_star\<close> is
  not among them either: the call is recorded with its arguments. \<^verbatim>\<open>self.abort(status)\<close>
  ends the request with that status.
\<close>

record star_request =
  star_json :: "json option"
  current_user :: "string option"

definition do_post :: "(int \<Rightarrow> bool) \<Rightarrow> star_request \<Rightarrow> world \<Rightarrow> (error + response) \<times> world" where
  "do_post feature_exists request w =
     (case star_json request of
        None \<Rightarrow> (Inl Bad_json, w)
      | Some (JObj d) \<Rightarrow>
          (let feature_id = (case map_of d ''featureId'' of None \<Rightarrow> JNull | Some v \<Rightarrow> v);
               starred = (case map_of d ''starred'' of None \<Rightarrow> JBool True | Some v \<Rightarrow> v)
           in case feature_id of
                JInt n \<Rightarrow>
                  if \<not> feature_exists n then (Inl (Abort 404 []), w)
                  else
                    (case current_user request of
                       None \<Rightarrow> (Inl (Abort 400 []), w)
                     | Some user_email \<Rightarrow>
                         (Inr (Message ''Done''),
                          w\<lparr>star_calls := star_calls w @ [(user_email, n, starred)]\<rparr>))
              | _ \<Rightarrow> (Inl (Abort 400 []), w))
      | Some _ \<Rightarrow> (Inl AttributeError, w))"

section \<open>The specification's notions\<close>

text \<open>
  A template as the specification describes it: literal text with places for the user and
  the domain. \<open>write_template\<close> is the Python template string for it (a place is written
  \<^verbatim>\<open>%(user)s\<close> or \<^verbatim>\<open>%(domain)s\<close>, a literal percent sign is doubled) and
  \<open>substitute\<close> is the text with the places filled in.
\<close>

datatype piece = Literal string | User | Domain

fun write_piece :: "piece \<Rightarrow> string" where
  "write_piece (Literal s) = concat (map (\<lambda>c. if c = CHR ''%'' then ''%%'' else [c]) s)"
| "write_piece User = ''%(user)s''"
| "write_piece Domain = ''%(domain)s''"

definition write_template :: "piece list \<Rightarrow> string" where
  "write_template ps = concat (map write_piece ps)"

fun fill_piece :: "string \<Rightarrow> string \<Rightarrow> piece \<Rightarrow> string" where
  "fill_piece user domain (Literal s) = s"
| "fill_piece user domain User = user"
| "fill_piece user domain Domain = domain"

definition substitute :: "string \<Rightarrow> string \<Rightarrow> piece list \<Rightarrow> string" where
  "substitute user domain ps = concat (map (fill_piece user domain) ps)"

text \<open>
  The addresses parsed from header values: the address parts, of the entries that
  \<^verbatim>\<open>getaddresses\<close> gives, that are not empty (for a value it cannot parse
  \<^verbatim>\<open>getaddresses\<close> gives an entry whose address is empty).
\<close>

definition parsed_addresses :: "mail_lib \<Rightarrow> string list \<Rightarrow> string list" where
  "parsed_addresses lib header_values =
     filter (\<lambda>address. address \<noteq> []) (map snd (getaddresses lib header_values))"

text \<open>The first \<^verbatim>\<open>text/plain\<close> part of a message in document order.\<close>

definition first_text_plain :: "py_message \<Rightarrow> py_message option" where
  "first_text_plain msg = find (\<lambda>part. content_type part = ''text/plain'') (walk msg)"

text \<open>
  The decoded content of a part: its payload bytes read in the charset the part declares
  (\<^verbatim>\<open>us-ascii\<close> when it declares none); None when they cannot be read so.
\<close>

definition decoded_content :: "mail_lib \<Rightarrow> py_message \<Rightarrow> string option" where
  "decoded_content lib part =
     (case decoded_payload part of
        PBytes b \<Rightarrow> decode lib (case charset part of None \<Rightarrow> ''us-ascii'' | Some cs \<Rightarrow> cs) b
      | PStr s \<Rightarrow> Some s
      | PNone \<Rightarrow> None)"

text \<open>
  The payload of a part read as UTF-8 whatever charset the part declares, and the reply
  body made of it: that of the first \<^verbatim>\<open>text/plain\<close> part, the empty string when the
  message has none; None when the payload is not UTF-8.
\<close>

definition utf8_content :: "mail_lib \<Rightarrow> py_message \<Rightarrow> string option" where
  "utf8_content lib part =
     (case decoded_payload part of
        PBytes b \<Rightarrow> decode lib ''utf-8'' b
      | PStr s \<Rightarrow> Some s
      | PNone \<Rightarrow> None)"

definition reply_text :: "mail_lib \<Rightarrow> py_message \<Rightarrow> string option" where
  "reply_text lib msg =
     (case first_text_plain msg of None \<Rightarrow> Some [] | Some part \<Rightarrow> utf8_content lib part)"

section \<open>Example inputs\<close>

text \<open>
  A staging configuration whose exempt list is a list of one address, and the same with
  the exempt list given as an address; two mail tasks, the second addressed to the exempt
  list; a bounce notification.
\<close>

definition staging_settings :: settings where
  "staging_settings =
     \<lparr>UNIT_TEST_MODE = False, DEV_MODE = False, APP_ID = ''app'', SEND_EMAIL = True,
      SEND_ALL_EMAIL_TO = Some ''%(user)s+staging@%(domain)s'',
      CC_ALL_EMAIL_TO = Some ''cc+%(user)s+%(domain)s@x.org'',
      REVIEW_COMMENT_MAILING_LIST = Strs [''list@x.org''],
      BOUNCE_ESCALATION_ADDR = Str ''esc@x.org'',
      INBOUND_EMAIL_ADDR = ''in@x.org''\<rparr>"

definition address_settings :: settings where
  "address_settings = staging_settings\<lparr>REVIEW_COMMENT_MAILING_LIST := Str ''list@x.org''\<rparr>"

definition example_task :: mail_request where
  "example_task =
     \<lparr>queue_header = True,
      json_body = Some [(''to'', Str ''a@b''), (''cc'', Strs [''c@d'', ''e@f'']),
        (''subject'', Str ''S''), (''html'', Str ''<p>''), (''references'', Str ''<msg1@id>'')]\<rparr>"

definition example_list_task :: mail_request where
  "example_list_task =
     \<lparr>queue_header = True,
      json_body = Some [(''to'', Str ''list@x.org''), (''cc'', Str ''c@d''),
        (''subject'', Str ''S''), (''html'', Str ''<p>'')]\<rparr>"

text \<open>
  Library functions for the examples. \<open>ascii_lower\<close> is \<^verbatim>\<open>str.lower\<close> on text whose
  letters are ASCII. \<open>example_getaddresses\<close> is \<^verbatim>\<open>getaddresses\<close> on values that are
  empty, a bare address, or a display name followed by an address in angle brackets.
  \<open>example_decode\<close> is \<^verbatim>\<open>bytes.decode\<close> for UTF-8, Latin-1 and ASCII; the text it gives
  is in UTF-8, as all strings are.
\<close>

definition ascii_lower :: "string \<Rightarrow> string" where
  "ascii_lower s =
     map (\<lambda>c. case map_of (zip ''ABCDEFGHIJKLMNOPQRSTUVWXYZ'' ''abcdefghijklmnopqrstuvwxyz'') c of
                 Some l \<Rightarrow> l
               | None \<Rightarrow> c) s"

definition rstrip :: "string \<Rightarrow> string" where
  "rstrip s = rev (dropWhile (\<lambda>c. c = CHR '' '') (rev s))"

definition example_getaddress :: "string \<Rightarrow> string \<times> string" where
  "example_getaddress v =
     (if CHR ''<'' \<in> set v
      then (rstrip (takeWhile (\<lambda>c. c \<noteq> CHR ''<'') v),
            takeWhile (\<lambda>c. c \<noteq> CHR ''>'') (tl (dropWhile (\<lambda>c. c \<noteq> CHR ''<'') v)))
      else ([], v))"

definition example_getaddresses :: "string list \<Rightarrow> (string \<times> string) list" where
  "example_getaddresses header_values = map example_getaddress header_values"

text \<open>
  Well-formed UTF-8: \<open>pending\<close> continuation bytes are still due, the next of them
  between \<open>lo\<close> and \<open>hi\<close>.
\<close>

fun utf8_scan :: "nat \<Rightarrow> nat \<Rightarrow> nat \<Rightarrow> nat list \<Rightarrow> bool" where
  "utf8_scan pending lo hi [] = (pending = 0)"
| "utf8_scan pending lo hi (b # bs) =
     (if pending = 0 then
        (if b < 0x80 then utf8_scan 0 0x80 0xBF bs
         else if 0xC2 \<le> b \<and> b \<le> 0xDF then utf8_scan 1 0x80 0xBF bs
         else if b = 0xE0 then utf8_scan 2 0xA0 0xBF bs
         else if b = 0xED then utf8_scan 2 0x80 0x9F bs
         else if 0xE1 \<le> b \<and> b \<le> 0xEF then utf8_scan 2 0x80 0xBF bs
         else if b = 0xF0 then utf8_scan 3 0x90 0xBF bs
         else if b = 0xF4 then utf8_scan 3 0x80 0x8F bs
         else if 0xF1 \<le> b \<and> b \<le> 0xF3 then utf8_scan 3 0x80 0xBF bs
         else False)
      else lo \<le> b \<and> b \<le> hi \<and> utf8_scan (pending - 1) 0x80 0xBF bs)"

text \<open>
  A Latin-1 byte as UTF-8 text, bit by bit (lowest bit first): a byte from 0x80 on
  becomes the two bytes \<^verbatim>\<open>1100001x 10xxxxxx\<close>.
\<close>

fun latin1_char :: "char \<Rightarrow> string" where
  "latin1_char (Char b0 b1 b2 b3 b4 b5 b6 b7) =
     (if b7 then [Char b6 True False False False False True True,
                  Char b0 b1 b2 b3 b4 b5 False True]
      else [Char b0 b1 b2 b3 b4 b5 b6 b7])"

definition latin1_text :: "string \<Rightarrow> string" where
  "latin1_text bs = concat (map latin1_char bs)"

definition example_decode :: "string \<Rightarrow> string \<Rightarrow> string option" where
  "example_decode encoding bs =
     (if encoding = ''utf-8''
        then (if utf8_scan 0 0x80 0xBF (map of_char bs) then Some bs else None)
      else if encoding = ''iso-8859-1'' then Some (latin1_text bs)
      else if encoding = ''us-ascii''
        then (if list_all (\<lambda>c. (of_char c :: nat) < 0x80) bs then Some bs else None)
      else None)"

text \<open>
  An inbound message with a picture, a nested plain-text part and a later one. The raw
  text chooses its headers and the first plain-text part: \<^verbatim>\<open>forwarded\<close> adds an
  \<^verbatim>\<open>X-Original-From\<close> header, \<^verbatim>\<open>blank\<close> adds an empty one, \<^verbatim>\<open>anonymous\<close> leaves
  \<^verbatim>\<open>From\<close> out, \<^verbatim>\<open>auto\<close> marks an autoresponder; \<^verbatim>\<open>latin\<close> and \<^verbatim>\<open>accent\<close> declare
  Latin-1 for the bytes C3 A9 and for the byte E9.
\<close>

definition example_message :: "string \<Rightarrow> py_message" where
  "example_message raw =
     Mime ((if raw = ''forwarded'' then [(''X-Original-From'', ''bob@y.org'')] else [])
           @ (if raw = ''blank'' then [(''X-Original-From'', [])] else [])
           @ (if raw = ''anonymous'' then [] else [(''From'', ''Ann <ann@x.org>'')])
           @ [(''Subject'', ''Re: hi''),
              (''Precedence'', if raw = ''auto'' then ''Bulk'' else ''first-class'')])
       ''multipart/mixed'' None PNone
       [Mime [] ''image/png'' None (PBytes ''png'') [],
        Mime [] ''multipart/alternative'' None PNone
          [Mime [] ''text/plain''
             (if raw = ''latin'' \<or> raw = ''accent'' then Some ''iso-8859-1'' else Some ''utf-8'')
             (PBytes (if raw = ''latin'' then [CHR 0xC3, CHR 0xA9]
                      else if raw = ''accent'' then [CHR 0xE9] else ''Hello'')) [],
           Mime [] ''text/html'' (Some ''utf-8'') (PBytes ''<p>Hello</p>'') []],
        Mime [] ''text/plain'' (Some ''utf-8'') (PBytes ''Second'') []]"

definition example_lib :: mail_lib where
  "example_lib =
     \<lparr>parse_message = example_message,
      getaddresses = example_getaddresses,
      unquote = (\<lambda>s. s),
      str_lower = ascii_lower,
      decode = example_decode,
      enqueue_ok = (\<lambda>path task. True)\<rparr>"

definition example_mail :: inbound_request where
  "example_mail = \<lparr>content_length = Some 2048, data = ''raw''\<rparr>"

definition example_reply :: "string \<Rightarrow> string \<Rightarrow> string \<times> task_dict" where
  "example_reply sender_addr text =
     (''/tasks/detect-intent'',
      \<lparr>to_addr = ''in@x.org'', from_addr = sender_addr, subject = ''Re: hi'',
       in_reply_to = [], body = text\<rparr>)"

definition example_bounce :: bounce_notification where
  "example_bounce =
     \<lparr>original = [(''to'', ''user@x.com''), (''from'', ''admin@app.appspotmail.com''),
                  (''subject'', ''News''), (''text'', ''Hi'')]\<rparr>"

section \<open>Properties of the address formatter\<close>

subsection \<open>Splitting an address\<close>

lemma split_char_no_sep: "c \<notin> set v \<Longrightarrow> split_char c v = [v]"
  by (induction v) auto

lemma split_char_append: "c \<notin> set u \<Longrightarrow> split_char c (u @ c # v) = u # split_char c v"
  by (induction u) auto

lemma split_addr_user_domain:
  "CHR ''@'' \<notin> set user \<Longrightarrow> CHR ''@'' \<notin> set domain \<Longrightarrow>
   split_addr (user @ CHR ''@'' # domain) = Inr (user, domain)"
  by (simp add: split_addr_def split_char_append split_char_no_sep)

subsection \<open>Formatting a written template substitutes\<close>

lemma py_format_literal:
  "py_format (write_piece (Literal s) @ rest) d = and_then (py_format rest d) (\<lambda>out. Inr (s @ out))"
proof (induction s)
  case Nil
  show ?case by (cases "py_format rest d") (simp_all add: and_then_def)
next
  case (Cons c s)
  then show ?case by (cases "py_format rest d") (auto simp: and_then_def)
qed

lemma py_format_user:
  "py_format (write_piece User @ rest) (user_domain u v) = and_then (py_format rest (user_domain u v)) (\<lambda>out. Inr (u @ out))"
  by (simp add: user_domain_def)

lemma py_format_domain:
  "py_format (write_piece Domain @ rest) (user_domain u v) = and_then (py_format rest (user_domain u v)) (\<lambda>out. Inr (v @ out))"
  by (simp add: user_domain_def)

lemma py_format_template:
  "py_format (write_template ps) (user_domain u v) = Inr (substitute u v ps)"
proof (induction ps)
  case Nil
  show ?case by (simp add: write_template_def substitute_def)
next
  case (Cons p ps)
  have step: "py_format (write_piece p @ write_template ps) (user_domain u v)
      = and_then (py_format (write_template ps) (user_domain u v)) (\<lambda>out. Inr (fill_piece u v p @ out))"
    by (cases p) (simp_all only: py_format_literal py_format_user py_format_domain fill_piece.simps)
  have "write_template (p # ps) = write_piece p @ write_template ps"
    by (simp add: write_template_def)
  then show ?case using step Cons.IH by (simp add: and_then_def substitute_def)
qed

lemma format_cc_template:
  assumes "CHR ''@'' \<notin> set user" and "CHR ''@'' \<notin> set domain"
    and "CC_ALL_EMAIL_TO cfg = Some (write_template ps)"
  shows "format_cc cfg (user @ CHR ''@'' # domain) = Inr (substitute user domain ps)"
  using assms
  by (simp add: format_cc_def split_addr_user_domain and_then_def py_format_template)

subsection \<open>The formatter\<close>

text \<open>
  C1 (as amended). For an address \<open>user@domain\<close> with no further \<open>@\<close>:
  when \<open>SEND_ALL_EMAIL_TO\<close> is unset or empty, \<open>format_staging_email\<close> returns the
  empty string; when it is a template, the result is the template with the user and the
  domain of the address put in the places \<^verbatim>\<open>%(user)s\<close> and \<^verbatim>\<open>%(domain)s\<close>.
\<close>

theorem format_staging_email_amended:
  assumes "CHR ''@'' \<notin> set user" and "CHR ''@'' \<notin> set domain"
  shows "(SEND_ALL_EMAIL_TO cfg = None \<or> SEND_ALL_EMAIL_TO cfg = Some []
            \<longrightarrow> format_staging_email cfg (user @ CHR ''@'' # domain) = Inr [])
       \<and> (SEND_ALL_EMAIL_TO cfg = Some (write_template ps) \<and> write_template ps \<noteq> []
            \<longrightarrow> format_staging_email cfg (user @ CHR ''@'' # domain)
                = Inr (substitute user domain ps))"
proof (intro conjI impI)
  assume "SEND_ALL_EMAIL_TO cfg = None \<or> SEND_ALL_EMAIL_TO cfg = Some []"
  then show "format_staging_email cfg (user @ CHR ''@'' # domain) = Inr []"
    by (auto simp: format_staging_email_def)
next
  assume on: "SEND_ALL_EMAIL_TO cfg = Some (write_template ps) \<and> write_template ps \<noteq> []"
  have "split_addr (user @ CHR ''@'' # domain) = Inr (user, domain)"
    using assms by (rule split_addr_user_domain)
  with on show "format_staging_email cfg (user @ CHR ''@'' # domain)
      = Inr (substitute user domain ps)"
    by (simp add: format_staging_email_def and_then_def py_format_template)
qed

theorem format_staging_email_amended_witness:
  "CHR ''@'' \<notin> set ''a'' \<and> CHR ''@'' \<notin> set ''b''
   \<and> SEND_ALL_EMAIL_TO staging_settings = Some (write_template [User, Literal ''+staging@'', Domain])
   \<and> format_staging_email staging_settings ''a@b'' = Inr ''a+staging@b''
   \<and> format_staging_email (staging_settings\<lparr>SEND_ALL_EMAIL_TO := None\<rparr>) ''a@b'' = Inr []"
proof -
  have tpl: "SEND_ALL_EMAIL_TO staging_settings
      = Some (write_template [User, Literal ''+staging@'', Domain])"
    by (simp add: staging_settings_def write_template_def)
  have a: "CHR ''@'' \<notin> set ''a''" and b: "CHR ''@'' \<notin> set ''b''" by simp_all
  have on: "format_staging_email staging_settings ''a@b'' = Inr ''a+staging@b''"
    using format_staging_email_amended [OF a b, of staging_settings
        "[User, Literal ''+staging@'', Domain]"] tpl
    by (simp add: write_template_def substitute_def)
  have off: "format_staging_email (staging_settings\<lparr>SEND_ALL_EMAIL_TO := None\<rparr>) ''a@b'' = Inr []"
    using format_staging_email_amended [OF a b, of "staging_settings\<lparr>SEND_ALL_EMAIL_TO := None\<rparr>"]
    by simp
  from a b tpl on off show ?thesis by blast
qed

text \<open>
  C1 as the specification words it fails twice. With redirection disabled the result is
  the empty string, not the address; and a template written with braces has no
  \<^verbatim>\<open>%\<close> directive, so it is returned as it is.
\<close>

theorem format_staging_email_counterexample:
  "format_staging_email (staging_settings\<lparr>SEND_ALL_EMAIL_TO := None\<rparr>) ''user@domain''
     \<noteq> Inr ''user@domain''
   \<and> format_staging_email
        (staging_settings\<lparr>SEND_ALL_EMAIL_TO := Some (''{user}+staging@'' @ ''{domain}'')\<rparr>)
        ''user@domain''
     \<noteq> Inr ''user+staging@domain''"
  by (simp add: format_staging_email_def split_addr_def and_then_def user_domain_def)

section \<open>Properties of the outbound handler\<close>

subsection \<open>Sequencing\<close>

lemma and_then_Inr_iff: "and_then m f = Inr y \<longleftrightarrow> (\<exists>x. m = Inr x \<and> f x = Inr y)"
  by (cases m) (simp_all add: and_then_def)

lemma and_then_Inl: "and_then (Inl e) f = Inl e"
  by (simp add: and_then_def)

lemma and_then_Inr: "and_then (Inr x) f = f x"
  by (simp add: and_then_def)

lemma mail_call_Inr_iff: "mail_call mail_ok op m = Inr m' \<longleftrightarrow> mail_ok op m \<and> m' = m"
  by (auto simp: mail_call_def)

lemma map_err_Inr_iff: "map_err f xs = Inr ys \<longleftrightarrow> list_all2 (\<lambda>x y. f x = Inr y) xs ys"
proof (induction xs arbitrary: ys)
  case Nil
  show ?case by auto
next
  case (Cons x xs)
  show ?case by (cases ys) (auto simp: and_then_Inr_iff Cons.IH)
qed

subsection \<open>The parts of the outbound handler\<close>

lemma get_param_eq:
  "json_body request = Some d \<Longrightarrow>
   get_param request name required =
     (if required \<and> \<not> truthy (dict_get d name)
      then Inl (Abort 400 (''Missing parameter '' @ py_repr name))
      else Inr (dict_get d name))"
  by (simp add: get_param_def Let_def)

lemma build_message_Inr:
  assumes "build_message mail_ok sender to2 subj email_html reply_to cc2 references = Inr m"
  shows "m = \<lparr>msg_sender = sender, msg_to = to2, msg_subject = subj, msg_html = email_html,
          msg_body = Null, msg_reply_to = (if truthy reply_to then reply_to else Null),
          msg_cc = (if truthy cc2 then cc2 else Null),
          msg_headers = (if truthy references
             then [(''References'', references), (''In-Reply-To'', references)] else [])\<rparr>"
  using assms unfolding build_message_def
  by (simp add: and_then_Inr_iff mail_call_Inr_iff split: if_splits)

lemma outbound_message_Inr:
  assumes body: "json_body request = Some d"
    and built: "outbound_message mail_ok cfg request = Inr m"
  shows "\<exists>to2 cc2.
     stage_recipients cfg (listify (dict_get d ''to'')) (listify (dict_get d ''cc'')) = Inr (to2, cc2)
   \<and> build_message mail_ok (sender_for cfg (dict_get d ''from_user'')) to2 (dict_get d ''subject'')
        (dict_get d ''html'') (dict_get d ''reply_to'') cc2 (dict_get d ''references'') = Inr m
   \<and> truthy (dict_get d ''to'')"
  using built unfolding outbound_message_def get_param_eq [OF body]
  by (simp add: and_then_Inr_iff split: if_splits prod.splits)

lemma outbound_message_rejects:
  assumes body: "json_body request = Some d" and empty: "\<not> truthy (dict_get d ''to'')"
  shows "outbound_message mail_ok cfg request =
      (if UNIT_TEST_MODE cfg \<or> DEV_MODE cfg \<or> queue_header request
       then Inl (Abort 400 (''Missing parameter '' @ py_repr ''to''))
       else Inl (Abort 403 ''Lacking X-AppEngine-QueueName header''))"
  unfolding outbound_message_def require_task_header_def get_param_eq [OF body]
  using empty by (simp add: and_then_Inl and_then_Inr)

lemma py_repr_to: "py_repr ''to'' = [CHR 0x27, CHR ''t'', CHR ''o'', CHR 0x27]"
  by (simp add: py_repr_def repr_char_def Let_def)

lemma outbound_message_headers:
  assumes body: "json_body request = Some d" and r: "truthy (dict_get d ''references'')"
    and built: "outbound_message mail_ok cfg request = Inr m"
  shows "msg_headers m = [(''References'', dict_get d ''references''),
                          (''In-Reply-To'', dict_get d ''references'')]"
proof -
  from outbound_message_Inr [OF body built] obtain to2 cc2 where
    "build_message mail_ok (sender_for cfg (dict_get d ''from_user'')) to2 (dict_get d ''subject'')
        (dict_get d ''html'') (dict_get d ''reply_to'') cc2 (dict_get d ''references'') = Inr m"
    by blast
  from build_message_Inr [OF this] r show ?thesis by simp
qed

lemma listify_truthy: "truthy p \<Longrightarrow> \<exists>xs. listify p = Strs xs \<and> xs \<noteq> []"
  by (cases p) auto

lemma listify_truthy_Strs: "truthy (listify p) \<Longrightarrow> \<exists>xs. listify p = Strs xs"
  by (cases p) auto

lemma stage_recipients_exempt:
  "to1 = REVIEW_COMMENT_MAILING_LIST cfg \<Longrightarrow> stage_recipients cfg to1 cc1 = Inr (to1, cc1)"
  by (simp add: stage_recipients_def)

lemma stage_recipients_off:
  "SEND_ALL_EMAIL_TO cfg = None \<or> SEND_ALL_EMAIL_TO cfg = Some [] \<Longrightarrow>
   stage_recipients cfg to1 cc1 = Inr (to1, cc1)"
  by (auto simp: stage_recipients_def)

lemma stage_recipients_rewrite:
  assumes on: "SEND_ALL_EMAIL_TO cfg = Some template" "template \<noteq> []"
    and other: "Strs to_addrs \<noteq> REVIEW_COMMENT_MAILING_LIST cfg"
    and res: "stage_recipients cfg (Strs to_addrs) cc1 = Inr (to2, cc2)"
  shows "(\<exists>new_to. to2 = Strs new_to
            \<and> list_all2 (\<lambda>addr new. format_staging_email cfg addr = Inr new) to_addrs new_to)
       \<and> (\<forall>cc_addrs. cc1 = Strs cc_addrs \<and> cc_addrs \<noteq> [] \<longrightarrow>
            (\<exists>new_cc. cc2 = Strs new_cc
               \<and> list_all2 (\<lambda>addr new. format_cc cfg addr = Inr new) cc_addrs new_cc))
       \<and> (\<not> truthy cc1 \<longrightarrow> cc2 = cc1)"
  using res on other unfolding stage_recipients_def
  by (auto simp: and_then_Inr_iff map_err_Inr_iff split: if_splits)

text \<open>
  The comparison with \<open>REVIEW_COMMENT_MAILING_LIST\<close> is made after \<^verbatim>\<open>to\<close> was put in
  list form: a setting that is a bare string equals no \<^verbatim>\<open>to\<close> value.
\<close>

lemma exemption_needs_list_setting:
  "REVIEW_COMMENT_MAILING_LIST cfg = Str s \<Longrightarrow> truthy p \<Longrightarrow>
   listify p \<noteq> REVIEW_COMMENT_MAILING_LIST cfg"
  by (cases p) auto

text \<open>What the handler hands to the transport is the message it built.\<close>

lemma handle_outbound_sends_built:
  assumes "handle_outbound_mail_task mail_ok cfg request w = (Inr r, w')"
  shows "\<exists>m. outbound_message mail_ok cfg request = Inr m \<and> r = Message ''Done''
     \<and> w' = (if SEND_EMAIL cfg then w\<lparr>sent := sent w @ [m]\<rparr> else w)"
  using assms by (auto simp: handle_outbound_mail_task_def split: sum.splits if_splits)

subsection \<open>The example tasks\<close>

lemmas eval_outbound =
  outbound_message_def get_param_def dict_get_def and_then_def stage_recipients_def
  build_message_def mail_call_def sender_for_def require_task_header_def
  format_staging_email_def format_cc_def split_addr_def user_domain_def staging_settings_def
  example_task_def example_list_task_def Let_def

lemma example_task_message:
  "outbound_message (\<lambda>op m. True) staging_settings example_task =
     Inr \<lparr>msg_sender = ''Chromestatus <admin@app.appspotmail.com>'',
          msg_to = Strs [''a+staging@b''], msg_subject = Str ''S'', msg_html = Str ''<p>'',
          msg_body = Null, msg_reply_to = Null,
          msg_cc = Strs [''cc+c+d@x.org'', ''cc+e+f@x.org''],
          msg_headers = [(''References'', Str ''<msg1@id>''), (''In-Reply-To'', Str ''<msg1@id>'')]\<rparr>"
  by (simp add: eval_outbound)

lemma example_list_task_message:
  "outbound_message (\<lambda>op m. True) staging_settings example_list_task =
     Inr \<lparr>msg_sender = ''Chromestatus <admin@app.appspotmail.com>'',
          msg_to = Strs [''list@x.org''], msg_subject = Str ''S'', msg_html = Str ''<p>'',
          msg_body = Null, msg_reply_to = Null, msg_cc = Strs [''c@d''], msg_headers = []\<rparr>"
  by (simp add: eval_outbound)

subsection \<open>Missing recipient\<close>

text \<open>
  C3. When the \<^verbatim>\<open>to\<close> parameter of a mail task is absent or null, the empty string or
  the empty list, \<open>handle_outbound_mail_task\<close> leaves the outside state as it was,
  whatever the mail library would answer, so nothing is handed to the transport; and for
  a request that passes \<open>require_task_header\<close> it fails with status 400 and the
  description \<^verbatim>\<open>Missing parameter 'to'\<close>.
\<close>

theorem empty_to_is_rejected:
  assumes body: "json_body request = Some d"
    and empty: "dict_get d ''to'' = Null \<or> dict_get d ''to'' = Str [] \<or> dict_get d ''to'' = Strs []"
  shows "snd (handle_outbound_mail_task mail_ok cfg request w) = w
     \<and> (UNIT_TEST_MODE cfg \<or> DEV_MODE cfg \<or> queue_header request \<longrightarrow>
          fst (handle_outbound_mail_task mail_ok cfg request w)
            = Inl (Abort 400 (''Missing parameter '' @ [CHR 0x27, CHR ''t'', CHR ''o'', CHR 0x27])))"
proof -
  from empty have "\<not> truthy (dict_get d ''to'')" by auto
  with body have msg: "outbound_message mail_ok cfg request =
      (if UNIT_TEST_MODE cfg \<or> DEV_MODE cfg \<or> queue_header request
       then Inl (Abort 400 (''Missing parameter '' @ py_repr ''to''))
       else Inl (Abort 403 ''Lacking X-AppEngine-QueueName header''))"
    by (rule outbound_message_rejects)
  show ?thesis
    unfolding handle_outbound_mail_task_def msg py_repr_to by simp
qed

theorem empty_to_is_rejected_witness:
  "json_body \<lparr>queue_header = True, json_body = Some [(''to'', Strs []), (''subject'', Str ''S'')]\<rparr>
     = Some [(''to'', Strs []), (''subject'', Str ''S'')]
   \<and> dict_get [(''to'', Strs []), (''subject'', Str ''S'')] ''to'' = Strs []
   \<and> queue_header \<lparr>queue_header = True, json_body = Some [(''to'', Strs []), (''subject'', Str ''S'')]\<rparr>
   \<and> handle_outbound_mail_task (\<lambda>op m. True) staging_settings
        \<lparr>queue_header = True, json_body = Some [(''to'', Strs []), (''subject'', Str ''S'')]\<rparr>
        empty_world
      = (Inl (Abort 400 (''Missing parameter '' @ [CHR 0x27, CHR ''t'', CHR ''o'', CHR 0x27])),
         empty_world)"
proof -
  let ?d = "[(''to'', Strs []), (''subject'', Str ''S'')]"
  let ?r = "\<lparr>queue_header = True, json_body = Some ?d\<rparr>"
  have b: "json_body ?r = Some ?d" by simp
  have e: "dict_get ?d ''to'' = Null \<or> dict_get ?d ''to'' = Str [] \<or> dict_get ?d ''to'' = Strs []"
    by (simp add: dict_get_def)
  have q: "queue_header ?r" by simp
  show ?thesis
    using empty_to_is_rejected [OF b e, of "\<lambda>op m. True" staging_settings
        "empty_world"] q
    by (simp add: dict_get_def prod_eq_iff)
qed

subsection \<open>Threading headers\<close>

text \<open>
  C9. When the \<^verbatim>\<open>references\<close> parameter of a mail task is a non-empty value \<open>r\<close>, every
  message that \<open>handle_outbound_mail_task\<close> builds has exactly the headers
  \<^verbatim>\<open>References\<close> and \<^verbatim>\<open>In-Reply-To\<close>, both with the value \<open>r\<close>.
\<close>

theorem references_set_both_headers:
  assumes body: "json_body request = Some d"
    and refs: "dict_get d ''references'' = r" and r: "truthy r"
    and built: "outbound_message mail_ok cfg request = Inr m"
  shows "msg_headers m = [(''References'', r), (''In-Reply-To'', r)]"
proof -
  from r refs have "truthy (dict_get d ''references'')" by simp
  from outbound_message_headers [OF body this built] refs show ?thesis by simp
qed

theorem references_set_both_headers_witness:
  "json_body example_task = Some [(''to'', Str ''a@b''), (''cc'', Strs [''c@d'', ''e@f'']),
        (''subject'', Str ''S''), (''html'', Str ''<p>''), (''references'', Str ''<msg1@id>'')]
   \<and> truthy (Str ''<msg1@id>'')
   \<and> (\<exists>m. outbound_message (\<lambda>op m. True) staging_settings example_task = Inr m
        \<and> msg_headers m = [(''References'', Str ''<msg1@id>''), (''In-Reply-To'', Str ''<msg1@id>'')])"
proof -
  let ?d = "[(''to'', Str ''a@b''), (''cc'', Strs [''c@d'', ''e@f'']),
        (''subject'', Str ''S''), (''html'', Str ''<p>''), (''references'', Str ''<msg1@id>'')]"
  have b: "json_body example_task = Some ?d" by (simp add: example_task_def)
  have g: "dict_get ?d ''references'' = Str ''<msg1@id>''" by (simp add: dict_get_def)
  have t: "truthy (Str ''<msg1@id>'')" by simp
  obtain m where m: "outbound_message (\<lambda>op m. True) staging_settings example_task = Inr m"
    using example_task_message by blast
  from references_set_both_headers [OF b g t m] m b t show ?thesis by blast
qed

subsection \<open>Staging redirection of the recipients\<close>

text \<open>
  What the handler does to the recipients with staging redirection configured, for any
  message it builds. If the \<^verbatim>\<open>to\<close> value in list form equals
  \<open>REVIEW_COMMENT_MAILING_LIST\<close>, the message has that \<^verbatim>\<open>to\<close> and, when \<^verbatim>\<open>cc\<close> is
  given, that \<^verbatim>\<open>cc\<close>, both as they came. Otherwise its \<^verbatim>\<open>to\<close> list is the given one
  with \<open>format_staging_email\<close> applied to every address, and its \<^verbatim>\<open>cc\<close> list, when
  \<^verbatim>\<open>cc\<close> is given, is the given one with the template \<open>CC_ALL_EMAIL_TO\<close> applied to
  every address.
\<close>

theorem staging_rewrites_recipients:
  assumes body: "json_body request = Some d"
    and on: "SEND_ALL_EMAIL_TO cfg = Some template" "template \<noteq> []"
    and built: "outbound_message mail_ok cfg request = Inr m"
  shows "(listify (dict_get d ''to'') = REVIEW_COMMENT_MAILING_LIST cfg \<longrightarrow>
            msg_to m = listify (dict_get d ''to'')
          \<and> msg_cc m = (if truthy (listify (dict_get d ''cc''))
                         then listify (dict_get d ''cc'') else Null))
       \<and> (listify (dict_get d ''to'') \<noteq> REVIEW_COMMENT_MAILING_LIST cfg \<longrightarrow>
            (\<exists>to_addrs new_to.
                listify (dict_get d ''to'') = Strs to_addrs \<and> msg_to m = Strs new_to
              \<and> list_all2 (\<lambda>addr new. format_staging_email cfg addr = Inr new) to_addrs new_to)
          \<and> (truthy (listify (dict_get d ''cc'')) \<longrightarrow>
               (\<exists>cc_addrs new_cc.
                   listify (dict_get d ''cc'') = Strs cc_addrs \<and> msg_cc m = Strs new_cc
                 \<and> list_all2 (\<lambda>addr new. format_cc cfg addr = Inr new) cc_addrs new_cc)))"
proof -
  let ?to1 = "listify (dict_get d ''to'')" and ?cc1 = "listify (dict_get d ''cc'')"
  from outbound_message_Inr [OF body built] obtain to2 cc2 where
    staged: "stage_recipients cfg ?to1 ?cc1 = Inr (to2, cc2)"
    and bm: "build_message mail_ok (sender_for cfg (dict_get d ''from_user'')) to2
        (dict_get d ''subject'') (dict_get d ''html'') (dict_get d ''reply_to'') cc2
        (dict_get d ''references'') = Inr m"
    and to_given: "truthy (dict_get d ''to'')"
    by blast
  have m_to: "msg_to m = to2" and m_cc: "msg_cc m = (if truthy cc2 then cc2 else Null)"
    using build_message_Inr [OF bm] by simp_all
  show ?thesis
  proof (intro conjI impI)
    assume ex: "?to1 = REVIEW_COMMENT_MAILING_LIST cfg"
    from stage_recipients_exempt [OF ex, of ?cc1] staged
    have "to2 = ?to1" and "cc2 = ?cc1" by simp_all
    with m_to m_cc show "msg_to m = ?to1" and "msg_cc m = (if truthy ?cc1 then ?cc1 else Null)"
      by simp_all
  next
    assume other: "?to1 \<noteq> REVIEW_COMMENT_MAILING_LIST cfg"
    from listify_truthy [OF to_given] obtain to_addrs where to1: "?to1 = Strs to_addrs" by blast
    from stage_recipients_rewrite [OF on, of to_addrs ?cc1 to2 cc2] other staged to1
    obtain new_to where "to2 = Strs new_to"
      and "list_all2 (\<lambda>addr new. format_staging_email cfg addr = Inr new) to_addrs new_to"
      by auto
    with to1 m_to show "\<exists>to_addrs new_to. ?to1 = Strs to_addrs \<and> msg_to m = Strs new_to
        \<and> list_all2 (\<lambda>addr new. format_staging_email cfg addr = Inr new) to_addrs new_to"
      by auto
  next
    assume other: "?to1 \<noteq> REVIEW_COMMENT_MAILING_LIST cfg" and cc: "truthy ?cc1"
    from listify_truthy [OF to_given] obtain to_addrs where to1: "?to1 = Strs to_addrs" by blast
    from listify_truthy_Strs [OF cc] obtain cc_addrs where cc1: "?cc1 = Strs cc_addrs" by blast
    with cc have ne: "cc_addrs \<noteq> []" by simp
    from stage_recipients_rewrite [OF on, of to_addrs ?cc1 to2 cc2] other staged to1 cc1 ne
    obtain new_cc where cc2: "cc2 = Strs new_cc"
      and all: "list_all2 (\<lambda>addr new. format_cc cfg addr = Inr new) cc_addrs new_cc"
      by auto
    from all ne have "new_cc \<noteq> []" by (auto simp: list_all2_Cons1 neq_Nil_conv)
    with cc2 m_cc have "msg_cc m = Strs new_cc" by simp
    with cc1 all show "\<exists>cc_addrs new_cc. ?cc1 = Strs cc_addrs \<and> msg_cc m = Strs new_cc
        \<and> list_all2 (\<lambda>addr new. format_cc cfg addr = Inr new) cc_addrs new_cc"
      by auto
  qed
qed

theorem staging_rewrites_recipients_witness:
  "SEND_ALL_EMAIL_TO staging_settings = Some ''%(user)s+staging@%(domain)s''
   \<and> (\<exists>m. outbound_message (\<lambda>op m. True) staging_settings example_list_task = Inr m
        \<and> listify (Str ''list@x.org'') = REVIEW_COMMENT_MAILING_LIST staging_settings
        \<and> msg_to m = Strs [''list@x.org''] \<and> msg_cc m = Strs [''c@d''])
   \<and> (\<exists>m. outbound_message (\<lambda>op m. True) staging_settings example_task = Inr m
        \<and> listify (Str ''a@b'') \<noteq> REVIEW_COMMENT_MAILING_LIST staging_settings
        \<and> msg_to m = Strs [''a+staging@b'']
        \<and> msg_cc m = Strs [''cc+c+d@x.org'', ''cc+e+f@x.org''])"
proof -
  let ?t = "''%(user)s+staging@%(domain)s''"
  have on: "SEND_ALL_EMAIL_TO staging_settings = Some ?t" and ne: "?t \<noteq> []"
    by (simp_all add: staging_settings_def)
  let ?d1 = "[(''to'', Str ''list@x.org''), (''cc'', Str ''c@d''),
        (''subject'', Str ''S''), (''html'', Str ''<p>'')]"
  have b1: "json_body example_list_task = Some ?d1" by (simp add: example_list_task_def)
  obtain m1 where m1: "outbound_message (\<lambda>op m. True) staging_settings example_list_task = Inr m1"
    using example_list_task_message by blast
  have ex: "listify (Str ''list@x.org'') = REVIEW_COMMENT_MAILING_LIST staging_settings"
    by (simp add: staging_settings_def)
  have r1: "msg_to m1 = Strs [''list@x.org''] \<and> msg_cc m1 = Strs [''c@d'']"
    using staging_rewrites_recipients [OF b1 on ne m1] ex by (simp add: dict_get_def)
  let ?d2 = "[(''to'', Str ''a@b''), (''cc'', Strs [''c@d'', ''e@f'']),
        (''subject'', Str ''S''), (''html'', Str ''<p>''), (''references'', Str ''<msg1@id>'')]"
  have b2: "json_body example_task = Some ?d2" by (simp add: example_task_def)
  obtain m2 where m2: "outbound_message (\<lambda>op m. True) staging_settings example_task = Inr m2"
    using example_task_message by blast
  have nex: "listify (Str ''a@b'') \<noteq> REVIEW_COMMENT_MAILING_LIST staging_settings"
    by (simp add: staging_settings_def)
  have fa: "format_staging_email staging_settings ''a@b'' = Inr ''a+staging@b''"
    and fc: "format_cc staging_settings ''c@d'' = Inr ''cc+c+d@x.org''"
    and fe: "format_cc staging_settings ''e@f'' = Inr ''cc+e+f@x.org''"
    by (simp_all add: eval_outbound)
  have r2: "msg_to m2 = Strs [''a+staging@b'']
      \<and> msg_cc m2 = Strs [''cc+c+d@x.org'', ''cc+e+f@x.org'']"
    using staging_rewrites_recipients [OF b2 on ne m2] nex fa fc fe
    by (auto simp: dict_get_def list_all2_Cons1)
  from on m1 ex r1 m2 nex r2 show ?thesis by blast
qed

text \<open>
  C2. Mail to the exempt mailing list is to keep its recipients. It does not when
  \<open>REVIEW_COMMENT_MAILING_LIST\<close> is the address of the list: the handler puts \<^verbatim>\<open>to\<close> in
  list form (lines 73 and 74) before it compares it with the setting (line 78), a list is
  never equal to a string, and so the message for the list goes to the staging alias and
  its \<^verbatim>\<open>cc\<close> is rewritten as well.
\<close>

theorem exempt_list_is_rewritten:
  "REVIEW_COMMENT_MAILING_LIST address_settings = Str ''list@x.org''
   \<and> SEND_ALL_EMAIL_TO address_settings = Some ''%(user)s+staging@%(domain)s''
   \<and> json_body example_list_task
      = Some [(''to'', Str ''list@x.org''), (''cc'', Str ''c@d''), (''subject'', Str ''S''),
              (''html'', Str ''<p>'')]
   \<and> handle_outbound_mail_task (\<lambda>op m. True) address_settings example_list_task empty_world
      = (Inr (Message ''Done''),
         empty_world\<lparr>sent :=
           [\<lparr>msg_sender = ''Chromestatus <admin@app.appspotmail.com>'',
             msg_to = Strs [''list+staging@x.org''], msg_subject = Str ''S'',
             msg_html = Str ''<p>'', msg_body = Null, msg_reply_to = Null,
             msg_cc = Strs [''cc+c+d@x.org''], msg_headers = []\<rparr>]\<rparr>)"
  by (simp add: handle_outbound_mail_task_def eval_outbound address_settings_def empty_world_def)

section \<open>Properties of the bounce handler\<close>

text \<open>
  C8. When the lookup for the bounced \<^verbatim>\<open>to\<close> address gives a preference record,
  \<open>receive\<close> leaves the store with that record persisted with \<open>bounced\<close> set, and
  nothing else changed in the store, whatever the mail library does afterwards: also when
  building or sending the escalation message fails, and then \<open>receive\<close> ends with an
  error. The update is not undone.
\<close>

theorem bounce_is_persisted_before_escalation:
  assumes "get_prefs_for_emails (prefs w) [map_of (original bounce_message) ''to'']
             = user_pref # others"
  shows "prefs (snd (receive mail_ok get_prefs_for_emails cfg bounce_message w))
           = (prefs w)(email user_pref \<mapsto> user_pref\<lparr>bounced := True\<rparr>)
       \<and> (SEND_EMAIL cfg \<and> (\<forall>m. \<not> mail_ok Op_send m) \<longrightarrow>
            (\<exists>e. fst (receive mail_ok get_prefs_for_emails cfg bounce_message w) = Inl e))"
  using assms
  by (auto simp: receive_def put_def Let_def split: sum.splits)

theorem bounce_is_persisted_before_escalation_witness:
  "lookup_or_create (prefs empty_world) [map_of (original example_bounce) ''to'']
      = [\<lparr>email = Some ''user@x.com'', bounced = False\<rparr>]
   \<and> prefs (snd (receive (\<lambda>op m. op \<noteq> Op_send) lookup_or_create staging_settings
        example_bounce empty_world)) (Some ''user@x.com'')
      = Some \<lparr>email = Some ''user@x.com'', bounced = True\<rparr>
   \<and> (\<exists>e. fst (receive (\<lambda>op m. op \<noteq> Op_send) lookup_or_create staging_settings
        example_bounce empty_world) = Inl e)"
proof -
  have l: "lookup_or_create (prefs empty_world) [map_of (original example_bounce) ''to'']
      = [\<lparr>email = Some ''user@x.com'', bounced = False\<rparr>]"
    by (simp add: lookup_or_create_def empty_world_def example_bounce_def)
  have s: "SEND_EMAIL staging_settings \<and> (\<forall>m. \<not> (\<lambda>op m. op \<noteq> Op_send) Op_send m)"
    by (simp add: staging_settings_def)
  from bounce_is_persisted_before_escalation
    [where get_prefs_for_emails = lookup_or_create and w = empty_world
       and bounce_message = example_bounce and mail_ok = "\<lambda>op m. op \<noteq> Op_send"
       and cfg = staging_settings, OF l] s l
  show ?thesis by (simp add: empty_world_def)
qed

section \<open>Properties of the inbound handler\<close>

subsection \<open>The validation chain\<close>

lemma handle_incoming_mail_accepted:
  assumes "addr = Some a" and "a = INBOUND_EMAIL_ADDR cfg"
    and "content_length request = Some n" and "n \<le> MAX_BODY_SIZE"
  shows "handle_incoming_mail lib cfg addr request w =
     (let msg = parse_message lib (data request);
          w1 = w\<lparr>parsed := parsed w @ [data request]\<rparr>
      in if str_lower lib (msg_get lib msg ''precedence'' []) = ''bulk''
            \<or> str_lower lib (msg_get lib msg ''precedence'' []) = ''junk''
         then (Inr (Message ''Wrong precedence''), w1)
         else
           (case getaddresses lib (msg_get_all lib msg ''x-original-from'' []) of
              (friendly, first) # others \<Rightarrow> enqueue_reply lib a msg first w1
            | [] \<Rightarrow>
                (case getaddresses lib (msg_get_all lib msg ''from'' []) of
                   (friendly, first) # others \<Rightarrow> enqueue_reply lib a msg first w1
                 | [] \<Rightarrow> (Inr (Message ''Missing From''), w1))))"
proof -
  let ?msg = "parse_message lib (data request)"
  show ?thesis
    using assms
    by (cases "getaddresses lib (msg_get_all lib ?msg ''x-original-from'' [])";
        cases "getaddresses lib (msg_get_all lib ?msg ''from'' [])")
       (auto simp: handle_incoming_mail_def extract_addrs_def Let_def)
qed

lemma enqueue_reply_cases:
  assumes "enqueue_reply lib a msg sender_addr w1 = (r, w')"
  shows "r \<noteq> Inr (Message ''Missing From'')
     \<and> ((\<exists>e. r = Inl e) \<and> w' = w1
        \<or> r = Inr (Message ''Done'')
          \<and> (\<exists>task. w' = w1\<lparr>queue := queue w1 @ [(''/tasks/detect-intent'', task)]\<rparr>
                \<and> from_addr task = sender_addr
                \<and> plain_text_body lib (walk msg) = Inr (body task)))"
  using assms
  by (auto simp: enqueue_reply_def enqueue_task_def Let_def split: sum.splits if_splits)

subsection \<open>The plain-text body\<close>

lemma part_text_utf8:
  "part_text lib part =
     (case utf8_content lib part of
        Some text \<Rightarrow> Inr text
      | None \<Rightarrow> (case decoded_payload part of PNone \<Rightarrow> Inl AttributeError
                  | _ \<Rightarrow> Inl UnicodeDecodeError))"
  by (simp add: part_text_def utf8_content_def split: payload.splits option.splits)

lemma plain_text_body_find:
  "plain_text_body lib parts =
     (case find (\<lambda>part. content_type part = ''text/plain'') parts of
        None \<Rightarrow> Inr []
      | Some part \<Rightarrow> part_text lib part)"
  by (induction parts) simp_all

lemma plain_text_body_reply_text:
  "plain_text_body lib (walk msg) = Inr text \<longleftrightarrow> reply_text lib msg = Some text"
  by (auto simp: plain_text_body_find reply_text_def first_text_plain_def part_text_utf8
      split: option.splits payload.splits)

lemma plain_text_body_fails:
  "(\<exists>e. plain_text_body lib (walk msg) = Inl e) \<longleftrightarrow> reply_text lib msg = None"
  by (auto simp: plain_text_body_find reply_text_def first_text_plain_def part_text_utf8
      split: option.splits payload.splits)

lemma plain_text_body_skips:
  assumes "\<forall>part \<in> set before. content_type part \<noteq> ''text/plain''"
    and "content_type part = ''text/plain''"
  shows "plain_text_body lib (before @ part # after) = part_text lib part"
  using assms by (induction before) simp_all


lemma reply_text_first:
  assumes "walk msg = before @ part # after"
    and "\<forall>other \<in> set before. content_type other \<noteq> ''text/plain''"
    and "content_type part = ''text/plain''"
  shows "reply_text lib msg = utf8_content lib part"
proof -
  have "find (\<lambda>p. content_type p = ''text/plain'') (before @ part # after) = Some part"
    using assms(2,3) by (induction before) simp_all
  then show ?thesis by (simp add: reply_text_def first_text_plain_def assms(1))
qed

subsection \<open>The example message\<close>

lemmas eval_inbound =
  example_lib_def example_message_def example_mail_def staging_settings_def empty_world_def
  example_getaddresses_def example_getaddress_def rstrip_def ascii_lower_def
  example_decode_def latin1_text_def
  msg_get_def msg_get_all_def extract_addrs_def parsed_addresses_def
  enqueue_reply_def enqueue_task_def part_text_def Let_def

lemma example_precedence:
  "raw \<noteq> ''auto'' \<Longrightarrow>
   str_lower example_lib
     (msg_get example_lib (parse_message example_lib (data (example_mail\<lparr>data := raw\<rparr>)))
        ''precedence'' []) = ''first-class''"
  by (simp add: eval_inbound)


lemma example_reply_text: "reply_text example_lib (example_message ''raw'') = Some ''Hello''"
  by (simp add: reply_text_def first_text_plain_def utf8_content_def example_message_def
      example_lib_def example_decode_def)

lemma example_latin:
  "decoded_content example_lib
      (Mime [] ''text/plain'' (Some ''iso-8859-1'') (PBytes [CHR 0xC3, CHR 0xA9]) [])
     = Some [CHR 0xC3, CHR 0x83, CHR 0xC2, CHR 0xA9]"
  by (simp add: decoded_content_def example_lib_def example_decode_def latin1_text_def)

lemma example_accent:
  "decoded_content example_lib
      (Mime [] ''text/plain'' (Some ''iso-8859-1'') (PBytes [CHR 0xE9]) [])
     = Some [CHR 0xC3, CHR 0xA9]"
  by (simp add: decoded_content_def example_lib_def example_decode_def latin1_text_def)

lemma example_latin_reply:
  "enqueue_reply example_lib ''in@x.org'' (example_message ''latin'') sender_addr
      (empty_world\<lparr>parsed := [''latin'']\<rparr>)
     = (Inr (Message ''Done''),
        empty_world\<lparr>parsed := [''latin''],
          queue := [example_reply sender_addr [CHR 0xC3, CHR 0xA9]]\<rparr>)"
  by (simp add: eval_inbound example_reply_def)

lemma example_accent_reply:
  "enqueue_reply example_lib ''in@x.org'' (example_message ''accent'') sender_addr
      (empty_world\<lparr>parsed := [''accent'']\<rparr>)
     = (Inl UnicodeDecodeError, empty_world\<lparr>parsed := [''accent'']\<rparr>)"
  by (simp add: eval_inbound example_reply_def)

subsection \<open>Oversized messages\<close>

text \<open>
  C4. A message sent to the configured inbound address whose content length is above
  20 * 1024 * 1024 is answered with \<^verbatim>\<open>Too big\<close> and the outside state is left as it
  was: nothing is given to the parser and nothing is put on the queue.
\<close>

theorem oversized_mail_is_not_parsed:
  assumes "addr = Some (INBOUND_EMAIL_ADDR cfg)"
    and "content_length request = Some n" and "n > 20 * 1024 * 1024"
  shows "handle_incoming_mail lib cfg addr request w = (Inr (Message ''Too big''), w)"
  using assms by (simp add: handle_incoming_mail_def MAX_BODY_SIZE_def)

theorem oversized_mail_is_not_parsed_witness:
  "Some ''in@x.org'' = Some (INBOUND_EMAIL_ADDR staging_settings)
   \<and> content_length (example_mail\<lparr>content_length := Some 20971521\<rparr>) = Some 20971521
   \<and> (20971521 :: int) > 20 * 1024 * 1024
   \<and> handle_incoming_mail example_lib staging_settings (Some ''in@x.org'')
        (example_mail\<lparr>content_length := Some 20971521\<rparr>) empty_world
      = (Inr (Message ''Too big''), empty_world)"
proof -
  have a: "Some ''in@x.org'' = Some (INBOUND_EMAIL_ADDR staging_settings)"
    by (simp add: staging_settings_def)
  have c: "content_length (example_mail\<lparr>content_length := Some 20971521\<rparr>) = Some 20971521"
    by simp
  have n: "(20971521 :: int) > 20 * 1024 * 1024" by simp
  from oversized_mail_is_not_parsed [OF a c n, of example_lib empty_world] a c n
  show ?thesis by blast
qed

subsection \<open>Autoresponders\<close>

text \<open>
  C5. A message sent to the configured inbound address, within the size ceiling, whose
  \<^verbatim>\<open>Precedence\<close> header in lower case is \<^verbatim>\<open>bulk\<close> or \<^verbatim>\<open>junk\<close> is answered with
  \<^verbatim>\<open>Wrong precedence\<close>; it has been parsed, and the queue is as it was.
\<close>

theorem autoresponder_mail_is_dropped:
  assumes "addr = Some (INBOUND_EMAIL_ADDR cfg)"
    and "content_length request = Some n" and "n \<le> 20 * 1024 * 1024"
    and "str_lower lib (msg_get lib (parse_message lib (data request)) ''precedence'' []) = ''bulk''
       \<or> str_lower lib (msg_get lib (parse_message lib (data request)) ''precedence'' []) = ''junk''"
  shows "handle_incoming_mail lib cfg addr request w
           = (Inr (Message ''Wrong precedence''), w\<lparr>parsed := parsed w @ [data request]\<rparr>)
       \<and> queue (snd (handle_incoming_mail lib cfg addr request w)) = queue w"
proof -
  from assms(3) have "n \<le> MAX_BODY_SIZE" by (simp add: MAX_BODY_SIZE_def)
  from handle_incoming_mail_accepted [OF assms(1) refl assms(2) this, of lib w] assms(4)
  have "handle_incoming_mail lib cfg addr request w
      = (Inr (Message ''Wrong precedence''), w\<lparr>parsed := parsed w @ [data request]\<rparr>)"
    by (simp add: Let_def)
  then show ?thesis by simp
qed

theorem autoresponder_mail_is_dropped_witness:
  "Some ''in@x.org'' = Some (INBOUND_EMAIL_ADDR staging_settings)
   \<and> content_length (example_mail\<lparr>data := ''auto''\<rparr>) = Some 2048
   \<and> (2048 :: int) \<le> 20 * 1024 * 1024
   \<and> msg_get example_lib (parse_message example_lib (data (example_mail\<lparr>data := ''auto''\<rparr>)))
         ''precedence'' [] = ''Bulk''
   \<and> str_lower example_lib ''Bulk'' = ''bulk''
   \<and> handle_incoming_mail example_lib staging_settings (Some ''in@x.org'')
        (example_mail\<lparr>data := ''auto''\<rparr>) empty_world
      = (Inr (Message ''Wrong precedence''), empty_world\<lparr>parsed := [''auto'']\<rparr>)"
proof -
  let ?r = "example_mail\<lparr>data := ''auto''\<rparr>"
  have a: "Some ''in@x.org'' = Some (INBOUND_EMAIL_ADDR staging_settings)"
    by (simp add: staging_settings_def)
  have c: "content_length ?r = Some 2048" by (simp add: example_mail_def)
  have n: "(2048 :: int) \<le> 20 * 1024 * 1024" by simp
  have h: "msg_get example_lib (parse_message example_lib (data ?r)) ''precedence'' [] = ''Bulk''"
    by (simp add: eval_inbound)
  have l: "str_lower example_lib ''Bulk'' = ''bulk''"
    by (simp add: eval_inbound)
  have b: "str_lower example_lib
      (msg_get example_lib (parse_message example_lib (data ?r)) ''precedence'' []) = ''bulk''"
    by (simp only: h l)
  have "handle_incoming_mail example_lib staging_settings (Some ''in@x.org'') ?r empty_world
      = (Inr (Message ''Wrong precedence''), empty_world\<lparr>parsed := [''auto'']\<rparr>)"
    using autoresponder_mail_is_dropped [OF a c n disjI1 [OF b], of empty_world]
    by (simp add: empty_world_def)
  with a c n h l show ?thesis by blast
qed

subsection \<open>The originating address\<close>





subsection \<open>The body of the reply\<close>

text \<open>
  C7 (as amended). For a message that passes the checks of address, size, precedence
  and originating address: whenever the handler answers \<^verbatim>\<open>Done\<close> it has put one task
  on the queue, whose body is the payload of the first \<^verbatim>\<open>text/plain\<close> part in document
  order read as UTF-8, whatever charset the part declares and whatever other parts there
  are, or the empty string when there is no such part; when that payload is not UTF-8
  the handler raises an error and queues nothing; and when it is and the queue accepts
  tasks, the handler does answer \<^verbatim>\<open>Done\<close>.
\<close>

theorem reply_body_is_first_plain_text:
  assumes "addr = Some (INBOUND_EMAIL_ADDR cfg)"
    and "content_length request = Some n" and "n \<le> 20 * 1024 * 1024"
    and "str_lower lib (msg_get lib (parse_message lib (data request)) ''precedence'' []) \<noteq> ''bulk''"
    and "str_lower lib (msg_get lib (parse_message lib (data request)) ''precedence'' []) \<noteq> ''junk''"
    and "msg = parse_message lib (data request)"
    and "getaddresses lib (msg_get_all lib msg ''x-original-from'' []) \<noteq> []
       \<or> getaddresses lib (msg_get_all lib msg ''from'' []) \<noteq> []"
  shows "(\<forall>w'. handle_incoming_mail lib cfg addr request w = (Inr (Message ''Done''), w') \<longrightarrow>
            (\<exists>task. queue w' = queue w @ [(''/tasks/detect-intent'', task)]
                \<and> reply_text lib msg = Some (body task)))
       \<and> (reply_text lib msg = None \<longrightarrow>
            (\<exists>e. handle_incoming_mail lib cfg addr request w
                   = (Inl e, w\<lparr>parsed := parsed w @ [data request]\<rparr>)))
       \<and> (\<forall>text. reply_text lib msg = Some text
              \<and> (\<forall>task. enqueue_ok lib ''/tasks/detect-intent'' task) \<longrightarrow>
            fst (handle_incoming_mail lib cfg addr request w) = Inr (Message ''Done'')
          \<and> map (body \<circ> snd) (queue (snd (handle_incoming_mail lib cfg addr request w)))
              = map (body \<circ> snd) (queue w) @ [text])"
proof -
  let ?w1 = "w\<lparr>parsed := parsed w @ [data request]\<rparr>"
  from assms(3) have "n \<le> MAX_BODY_SIZE" by (simp add: MAX_BODY_SIZE_def)
  from handle_incoming_mail_accepted [OF assms(1) refl assms(2) this, of lib w] assms(4-7)
  have "\<exists>sender_addr. handle_incoming_mail lib cfg addr request w
           = enqueue_reply lib (INBOUND_EMAIL_ADDR cfg) msg sender_addr ?w1"
    by (cases "getaddresses lib (msg_get_all lib msg ''x-original-from'' [])";
        cases "getaddresses lib (msg_get_all lib msg ''from'' [])")
       (auto simp: Let_def)
  then obtain sender_addr where
    eq: "handle_incoming_mail lib cfg addr request w
           = enqueue_reply lib (INBOUND_EMAIL_ADDR cfg) msg sender_addr ?w1"
    by blast
  have 1: "\<forall>w'. handle_incoming_mail lib cfg addr request w = (Inr (Message ''Done''), w') \<longrightarrow>
            (\<exists>task. queue w' = queue w @ [(''/tasks/detect-intent'', task)]
                \<and> reply_text lib msg = Some (body task))"
  proof (intro allI impI)
    fix w'
    assume "handle_incoming_mail lib cfg addr request w = (Inr (Message ''Done''), w')"
    with eq have "enqueue_reply lib (INBOUND_EMAIL_ADDR cfg) msg sender_addr ?w1
        = (Inr (Message ''Done''), w')" by simp
    from enqueue_reply_cases [OF this]
    show "\<exists>task. queue w' = queue w @ [(''/tasks/detect-intent'', task)]
        \<and> reply_text lib msg = Some (body task)"
      by (auto simp: plain_text_body_reply_text)
  qed
  have 2: "reply_text lib msg = None \<longrightarrow>
            (\<exists>e. handle_incoming_mail lib cfg addr request w = (Inl e, ?w1))"
  proof
    assume "reply_text lib msg = None"
    then obtain e where "plain_text_body lib (walk msg) = Inl e"
      using plain_text_body_fails [of lib msg] by blast
    then show "\<exists>e. handle_incoming_mail lib cfg addr request w = (Inl e, ?w1)"
      unfolding eq by (simp add: enqueue_reply_def)
  qed
  have 3: "\<forall>text. reply_text lib msg = Some text
              \<and> (\<forall>task. enqueue_ok lib ''/tasks/detect-intent'' task) \<longrightarrow>
            fst (handle_incoming_mail lib cfg addr request w) = Inr (Message ''Done'')
          \<and> map (body \<circ> snd) (queue (snd (handle_incoming_mail lib cfg addr request w)))
              = map (body \<circ> snd) (queue w) @ [text]"
  proof (intro allI impI)
    fix reply
    assume h: "reply_text lib msg = Some reply
        \<and> (\<forall>task. enqueue_ok lib ''/tasks/detect-intent'' task)"
    then have "plain_text_body lib (walk msg) = Inr reply"
      by (simp add: plain_text_body_reply_text)
    with h show "fst (handle_incoming_mail lib cfg addr request w) = Inr (Message ''Done'')
          \<and> map (body \<circ> snd) (queue (snd (handle_incoming_mail lib cfg addr request w)))
              = map (body \<circ> snd) (queue w) @ [reply]"
      unfolding eq by (simp add: enqueue_reply_def enqueue_task_def Let_def)
  qed
  from 1 2 3 show ?thesis by blast
qed

theorem reply_body_is_first_plain_text_witness:
  "Some ''in@x.org'' = Some (INBOUND_EMAIL_ADDR staging_settings)
   \<and> content_length example_mail = Some 2048 \<and> (2048 :: int) \<le> 20 * 1024 * 1024
   \<and> getaddresses example_lib (msg_get_all example_lib (example_message ''raw'') ''from'' []) \<noteq> []
   \<and> first_text_plain (example_message ''raw'')
        = Some (Mime [] ''text/plain'' (Some ''utf-8'') (PBytes ''Hello'') [])
   \<and> reply_text example_lib (example_message ''raw'') = Some ''Hello''
   \<and> fst (handle_incoming_mail example_lib staging_settings (Some ''in@x.org'')
        (example_mail\<lparr>data := ''raw''\<rparr>) empty_world) = Inr (Message ''Done'')
   \<and> map (body \<circ> snd) (queue (snd (handle_incoming_mail example_lib staging_settings
        (Some ''in@x.org'') (example_mail\<lparr>data := ''raw''\<rparr>) empty_world))) = [''Hello'']
   \<and> reply_text example_lib (example_message ''accent'') = None
   \<and> (\<exists>e. handle_incoming_mail example_lib staging_settings (Some ''in@x.org'')
        (example_mail\<lparr>data := ''accent''\<rparr>) empty_world
          = (Inl e, empty_world\<lparr>parsed := [''accent'']\<rparr>))"
proof -
  have a: "Some ''in@x.org'' = Some (INBOUND_EMAIL_ADDR staging_settings)"
    by (simp add: staging_settings_def)
  have c: "content_length (example_mail\<lparr>data := raw\<rparr>) = Some 2048" for raw
    by (simp add: example_mail_def)
  have c0: "content_length example_mail = Some 2048" by (simp add: example_mail_def)
  have n: "(2048 :: int) \<le> 20 * 1024 * 1024" by simp
  have nb: "str_lower example_lib (msg_get example_lib
        (parse_message example_lib (data (example_mail\<lparr>data := raw\<rparr>))) ''precedence'' [])
      \<noteq> ''bulk''"
    and nj: "str_lower example_lib (msg_get example_lib
        (parse_message example_lib (data (example_mail\<lparr>data := raw\<rparr>))) ''precedence'' [])
      \<noteq> ''junk''" if "raw \<noteq> ''auto''" for raw
    using example_precedence [OF that] by simp_all
  have p: "example_message raw = parse_message example_lib (data (example_mail\<lparr>data := raw\<rparr>))"
    for raw by (simp add: example_lib_def)
  have f: "getaddresses example_lib (msg_get_all example_lib (example_message raw) ''from'' []) \<noteq> []"
    if "raw \<noteq> ''anonymous''" for raw
    using that by (simp add: eval_inbound)
  have ft: "first_text_plain (example_message ''raw'')
      = Some (Mime [] ''text/plain'' (Some ''utf-8'') (PBytes ''Hello'') [])"
    by (simp add: first_text_plain_def example_message_def)
  have ok: "\<forall>task. enqueue_ok example_lib ''/tasks/detect-intent'' task"
    by (simp add: example_lib_def)
  have none: "reply_text example_lib (example_message ''accent'') = None"
    by (simp add: reply_text_def first_text_plain_def utf8_content_def example_message_def
        example_lib_def example_decode_def)
  have runs: "fst (handle_incoming_mail example_lib staging_settings (Some ''in@x.org'')
          (example_mail\<lparr>data := ''raw''\<rparr>) empty_world) = Inr (Message ''Done'')
      \<and> map (body \<circ> snd) (queue (snd (handle_incoming_mail example_lib staging_settings
          (Some ''in@x.org'') (example_mail\<lparr>data := ''raw''\<rparr>) empty_world))) = [''Hello'']"
    using reply_body_is_first_plain_text [OF a c n nb nj p disjI2 [OF f], of "''raw''" empty_world]
      example_reply_text ok
    by (simp add: empty_world_def)
  have fails: "\<exists>e. handle_incoming_mail example_lib staging_settings (Some ''in@x.org'')
        (example_mail\<lparr>data := ''accent''\<rparr>) empty_world
          = (Inl e, empty_world\<lparr>parsed := [''accent'']\<rparr>)"
    using reply_body_is_first_plain_text [OF a c n nb nj p disjI2 [OF f], of "''accent''" empty_world]
      none
    by (simp add: empty_world_def example_mail_def)
  from a c0 n f [of "''raw''"] ft example_reply_text runs none fails show ?thesis by simp
qed

text \<open>
  C7 as the specification words it fails on a first plain-text part that declares
  Latin-1. For the payload bytes C3 A9 the decoded content is the two letters that
  Latin-1 gives them, but the body of the task is the one letter UTF-8 gives them; and
  for the byte E9, whose decoded content is one accented letter, the handler raises
  UnicodeDecodeError and queues nothing.
\<close>

theorem reply_body_counterexample:
  "first_text_plain (example_message ''latin'')
      = Some (Mime [] ''text/plain'' (Some ''iso-8859-1'') (PBytes [CHR 0xC3, CHR 0xA9]) [])
   \<and> decoded_content example_lib
        (Mime [] ''text/plain'' (Some ''iso-8859-1'') (PBytes [CHR 0xC3, CHR 0xA9]) [])
      = Some [CHR 0xC3, CHR 0x83, CHR 0xC2, CHR 0xA9]
   \<and> handle_incoming_mail example_lib staging_settings (Some ''in@x.org'')
        (example_mail\<lparr>data := ''latin''\<rparr>) empty_world
      = (Inr (Message ''Done''),
         empty_world\<lparr>parsed := [''latin''],
           queue := [example_reply ''ann@x.org'' [CHR 0xC3, CHR 0xA9]]\<rparr>)
   \<and> body (snd (example_reply ''ann@x.org'' [CHR 0xC3, CHR 0xA9]))
      \<noteq> [CHR 0xC3, CHR 0x83, CHR 0xC2, CHR 0xA9]
   \<and> first_text_plain (example_message ''accent'')
      = Some (Mime [] ''text/plain'' (Some ''iso-8859-1'') (PBytes [CHR 0xE9]) [])
   \<and> decoded_content example_lib
        (Mime [] ''text/plain'' (Some ''iso-8859-1'') (PBytes [CHR 0xE9]) [])
      = Some [CHR 0xC3, CHR 0xA9]
   \<and> handle_incoming_mail example_lib staging_settings (Some ''in@x.org'')
        (example_mail\<lparr>data := ''accent''\<rparr>) empty_world
      = (Inl UnicodeDecodeError, empty_world\<lparr>parsed := [''accent'']\<rparr>)"
proof -
  have 1: "first_text_plain (example_message ''latin'')
      = Some (Mime [] ''text/plain'' (Some ''iso-8859-1'') (PBytes [CHR 0xC3, CHR 0xA9]) [])"
    and 5: "first_text_plain (example_message ''accent'')
      = Some (Mime [] ''text/plain'' (Some ''iso-8859-1'') (PBytes [CHR 0xE9]) [])"
    by (simp_all add: first_text_plain_def example_message_def)
  have 3: "handle_incoming_mail example_lib staging_settings (Some ''in@x.org'')
        (example_mail\<lparr>data := ''latin''\<rparr>) empty_world
      = (Inr (Message ''Done''),
         empty_world\<lparr>parsed := [''latin''],
           queue := [example_reply ''ann@x.org'' [CHR 0xC3, CHR 0xA9]]\<rparr>)"
    by (simp add: handle_incoming_mail_def MAX_BODY_SIZE_def eval_inbound example_reply_def)
  have 4: "body (snd (example_reply ''ann@x.org'' [CHR 0xC3, CHR 0xA9]))
      \<noteq> [CHR 0xC3, CHR 0x83, CHR 0xC2, CHR 0xA9]"
    by (simp add: example_reply_def)
  have 7: "handle_incoming_mail example_lib staging_settings (Some ''in@x.org'')
        (example_mail\<lparr>data := ''accent''\<rparr>) empty_world
      = (Inl UnicodeDecodeError, empty_world\<lparr>parsed := [''accent'']\<rparr>)"
    by (simp add: handle_incoming_mail_def MAX_BODY_SIZE_def eval_inbound)
  from 1 example_latin 3 4 5 example_accent 7 show ?thesis by blast
qed

section \<open>Properties of the star API\<close>

text \<open>
  C10. A star request from a signed-in user whose body names an existing feature by an
  integer \<^verbatim>\<open>featureId\<close> and has no \<^verbatim>\<open>starred\<close> field is answered with \<^verbatim>\<open>Done\<close>
  after one call \<^verbatim>\<open>set_star(email, feature_id, True)\<close>: the same as for the body with
  \<^verbatim>\<open>starred\<close> set to true.
\<close>

theorem omitted_starred_means_true:
  assumes "star_json request = Some (JObj d)"
    and "map_of d ''featureId'' = Some (JInt n)" and "feature_exists n"
    and "current_user request = Some user_email"
    and "map_of d ''starred'' = None"
  shows "do_post feature_exists request w
           = (Inr (Message ''Done''), w\<lparr>star_calls := star_calls w @ [(user_email, n, JBool True)]\<rparr>)
       \<and> do_post feature_exists request w
           = do_post feature_exists
               (request\<lparr>star_json := Some (JObj ((''starred'', JBool True) # d))\<rparr>) w"
  using assms by (simp add: do_post_def)

theorem omitted_starred_means_true_witness:
  "star_json \<lparr>star_json = Some (JObj [(''featureId'', JInt 7)]), current_user = Some ''u@x.org''\<rparr>
      = Some (JObj [(''featureId'', JInt 7)])
   \<and> map_of [(''featureId'', JInt 7)] ''featureId'' = Some (JInt 7)
   \<and> map_of [(''featureId'', JInt 7)] ''starred'' = None
   \<and> do_post (\<lambda>n. n = 7)
        \<lparr>star_json = Some (JObj [(''featureId'', JInt 7)]), current_user = Some ''u@x.org''\<rparr>
        empty_world
      = (Inr (Message ''Done''), empty_world\<lparr>star_calls := [(''u@x.org'', 7, JBool True)]\<rparr>)"
proof -
  let ?d = "[(''featureId'', JInt 7)]"
  let ?r = "\<lparr>star_json = Some (JObj ?d), current_user = Some ''u@x.org''\<rparr>"
  have j: "star_json ?r = Some (JObj ?d)" and u: "current_user ?r = Some ''u@x.org''" by simp_all
  have f: "map_of ?d ''featureId'' = Some (JInt 7)" and st: "map_of ?d ''starred'' = None"
    by simp_all
  have e: "(\<lambda>n. n = (7::int)) 7" by simp
  have "do_post (\<lambda>n. n = 7) ?r empty_world
      = (Inr (Message ''Done''), empty_world\<lparr>star_calls := [(''u@x.org'', 7, JBool True)]\<rparr>)"
    using omitted_starred_means_true
      [where feature_exists = "\<lambda>n. n = 7" and w = empty_world, OF j f e u st]
    by (simp add: empty_world_def)
  with j f st show ?thesis by blast
qed

end
